theory Spec2Isabelle
  imports Main "HOL-Library.Word" "HOL-Library.AList"
begin

unbundle bit_operations_syntax

section \<open>The chat hub of \<open>src/server.ts\<close>: data model\<close>

text \<open>
  The class \<open>HonoLanChatServer\<close> keeps two pieces of mutable state, the map \<open>users\<close>
  and the array \<open>chatLog\<close>, and acts on the outside through three channels: calls of
  \<open>ws.send\<close>, the files it writes below \<open>received/\<close>, and the file \<open>chatlog.txt\<close>.
  All of them are fields of the record \<open>hub\<close> below, and every handler is a function
  on \<open>hub\<close>.

  Inputs the handlers draw from the environment are arguments: the value returned by
  \<open>nanoid()\<close> is \<open>nid\<close>, the value of \<open>new Date().toISOString()\<close> is \<open>now\<close>.
  A WebSocket object is a handle of type \<open>ws\<close>; what \<open>ws.readyState\<close> returns is read
  from the field \<open>readyState\<close> of the record, and whether \<open>fs.writeFileSync\<close> can write
  the file at a path from the field \<open>writable\<close>. \<open>logToConsole\<close> only prints and is
  left out. \<open>ws.send\<close> and the write of \<open>chatlog.txt\<close> are taken to return normally.

  Text that the server only stores, compares and concatenates (names, messages, file
  names, identifiers) is a \<open>string\<close>. The content of a file is read by the decoder one
  UTF-16 code unit at a time, so \<open>fileData\<close> is a list of 16-bit units, \<open>utf16\<close>. The
  declared size of a file is a JavaScript number; its type is the parameter \<open>'n\<close>.
\<close>

type_synonym ws = nat
type_synonym byte = "8 word"
type_synonym utf16 = "16 word list"

datatype ready_state = CONNECTING | OPEN | CLOSING | CLOSED

text \<open>\<open>interface User { id; username; ws }\<close>\<close>

record user =
  u_id :: string
  u_username :: string
  u_ws :: ws

datatype msg_type = TMessage | TFile | TSystem

text \<open>\<open>interface ChatMessage { id; username; message; timestamp; type }\<close>\<close>

record chat_message =
  m_id :: string
  m_username :: string
  m_message :: string
  m_timestamp :: string
  m_type :: msg_type

text \<open>\<open>interface FileTransfer { filename; fileData; fileSize; sender }\<close>\<close>

record 'n file_transfer =
  filename :: string
  fileData :: utf16
  fileSize :: 'n
  sender :: string

text \<open>The object literal given to \<open>broadcastToOthers\<close> in \<open>handleFileTransfer\<close>.\<close>

record 'n file_notice =
  fn_filename :: string
  fn_fileData :: utf16
  fn_sender :: string
  fn_fileSize :: 'n
  fn_downloadUrl :: string

text \<open>
  The four objects the server serialises with \<open>JSON.stringify\<close> and hands to \<open>ws.send\<close>,
  one constructor per value of their \<open>type\<close> field.
\<close>

datatype 'n outbound =
    OutMessage chat_message
  | OutJoined "chat_message list" "string list"
  | OutUserList "string list"
  | OutFileReceived "'n file_notice"

text \<open>The parsed inbound object, by its \<open>type\<close> field; \<open>InOther\<close> is the \<open>default\<close> case.\<close>

datatype 'n inbound =
    InJoin string
  | InMessage string
  | InFile "'n file_transfer"
  | InOther string

text \<open>
  \<open>users\<close> is a JavaScript \<open>Map\<close>: it iterates in insertion order, \<open>set\<close> on a key that
  is present replaces the value where it stands, and \<open>delete\<close> removes the entry. That is
  an association list with \<open>AList.update\<close>, \<open>AList.delete\<close> and \<open>map_of\<close>.

  \<open>received\<close> holds the files that \<open>handleFileTransfer\<close> has written, each under the
  path that \<open>path.join("received", filename)\<close> returned, and \<open>writable s p\<close> says that
  \<open>fs.writeFileSync\<close> succeeds at the path \<open>p\<close>; where it does not, the call throws.
  \<open>chatlog_txt\<close> is the content of \<open>chatlog.txt\<close>, a line per element, each line given by
  the three fields it prints. \<open>sent\<close> lists the calls of \<open>ws.send\<close> in the order they are
  made.
\<close>

record 'n hub =
  users :: "(string \<times> user) list"
  chatLog :: "chat_message list"
  chatlog_txt :: "(string \<times> string \<times> string) list"
  received :: "string \<Rightarrow> byte list option"
  sent :: "(ws \<times> 'n outbound) list"
  readyState :: "ws \<Rightarrow> ready_state"
  writable :: "string \<Rightarrow> bool"

text \<open>What escapes a handler: the exception of \<open>fs.writeFileSync\<close>, with the path.\<close>

datatype error = WriteFailed string

definition userList :: "'n hub \<Rightarrow> string list" where
  "userList s = map (\<lambda>(k, u). u_username u) (users s)"

section \<open>Fan-out\<close>

text \<open>
  \<open>broadcast\<close>: one \<open>send\<close> per entry of \<open>users\<close> whose socket reports \<open>OPEN\<close>, in
  iteration order.
\<close>

definition broadcast :: "'n outbound \<Rightarrow> 'n hub \<Rightarrow> 'n hub" where
  "broadcast d s =
     s\<lparr>sent := sent s @
          map (\<lambda>(k, u). (u_ws u, d))
              (filter (\<lambda>(k, u). readyState s (u_ws u) = OPEN) (users s))\<rparr>"

definition broadcastToOthers :: "string \<Rightarrow> 'n outbound \<Rightarrow> 'n hub \<Rightarrow> 'n hub" where
  "broadcastToOthers excludeUserId d s =
     s\<lparr>sent := sent s @
          map (\<lambda>(k, u). (u_ws u, d))
              (filter (\<lambda>(k, u). k \<noteq> excludeUserId \<and> readyState s (u_ws u) = OPEN)
                      (users s))\<rparr>"

definition broadcastUserList :: "'n hub \<Rightarrow> 'n hub" where
  "broadcastUserList s = broadcast (OutUserList (userList s)) s"

definition saveChatLog :: "'n hub \<Rightarrow> 'n hub" where
  "saveChatLog s =
     s\<lparr>chatlog_txt := map (\<lambda>m. (m_timestamp m, m_username m, m_message m)) (chatLog s)\<rparr>"

definition broadcastMessage :: "chat_message \<Rightarrow> 'n hub \<Rightarrow> 'n hub" where
  "broadcastMessage m s =
     saveChatLog (broadcast (OutMessage m) (s\<lparr>chatLog := chatLog s @ [m]\<rparr>))"

section \<open>The base64 wire format of file content\<close>

text \<open>
  The command-line client (\<open>sendFile\<close>) encodes with \<open>fileData.toString("base64")\<close>, the
  server decodes with \<open>Buffer.from(fileData.fileData, "base64")\<close>. Both are Node's
  \<open>Buffer\<close>, modelled here on bytes as \<open>8 word\<close> and on JavaScript strings as lists of
  UTF-16 code units; \<open>js\<close> gives the units of a text of ASCII characters.

  The encoder is RFC 4648 with padding: three bytes give four characters of the table, a
  rest of one or two bytes is padded with \<open>=\<close>.
\<close>

definition js :: "string \<Rightarrow> utf16" where
  "js s = map of_char s"

definition b64_table :: string where
  "b64_table = ''ABCDEFGHIJKLMNOPQRSTUVWXYZabcdefghijklmnopqrstuvwxyz0123456789+/''"

definition table :: "byte \<Rightarrow> 16 word" where
  "table v = of_char (b64_table ! unat v)"

definition pad :: "16 word" where
  "pad = 0x3D"

fun base64_encode :: "byte list \<Rightarrow> utf16" where
  "base64_encode (a # b # c # rest) =
     [table (drop_bit 2 a),
      table (push_bit 4 (a AND 3) OR drop_bit 4 b),
      table (push_bit 2 (b AND 0x0f) OR drop_bit 6 c),
      table (c AND 0x3f)] @ base64_encode rest"
| "base64_encode [a, b] =
     [table (drop_bit 2 a),
      table (push_bit 4 (a AND 3) OR drop_bit 4 b),
      table (push_bit 2 (b AND 0x0f)),
      pad]"
| "base64_encode [a] =
     [table (drop_bit 2 a), table (push_bit 4 (a AND 3)), pad, pad]"
| "base64_encode [] = []"

text \<open>
  The decoder never fails. It reads of every code unit the low eight bits, \<open>low8\<close>. Such
  a byte is legal when it is a character of the table or one of the URL-safe \<open>-\<close> and
  \<open>_\<close>; \<open>unbase64\<close> gives its six bits and 255 for every other byte. Decoding stops at
  the first unit whose byte is \<open>=\<close>, skips every other unit whose byte is not legal, and
  turns the legal ones into bytes four at a time; a rest of two or three gives one or two
  bytes, a rest of one gives none.
\<close>

definition low8 :: "16 word \<Rightarrow> byte" where
  "low8 u = ucast u"

definition unbase64_table :: "(byte \<times> byte) list" where
  "unbase64_table =
     zip (map of_char b64_table) (map of_nat [0..<64]) @ [(0x2D, 62), (0x5F, 63)]"

definition unbase64 :: "byte \<Rightarrow> byte" where
  "unbase64 c = (case map_of unbase64_table c of Some v \<Rightarrow> v | None \<Rightarrow> 255)"

definition sextets :: "utf16 \<Rightarrow> byte list" where
  "sextets s =
     filter (\<lambda>v. v < 64) (map (\<lambda>u. unbase64 (low8 u)) (takeWhile (\<lambda>u. low8 u \<noteq> 0x3D) s))"

fun decode_groups :: "byte list \<Rightarrow> byte list" where
  "decode_groups (a # b # c # d # rest) =
     [push_bit 2 (a AND 0x3F) OR drop_bit 4 (b AND 0x30),
      push_bit 4 (b AND 0x0F) OR drop_bit 2 (c AND 0x3C),
      push_bit 6 (c AND 0x03) OR (d AND 0x3F)] @ decode_groups rest"
| "decode_groups [a, b, c] =
     [push_bit 2 (a AND 0x3F) OR drop_bit 4 (b AND 0x30),
      push_bit 4 (b AND 0x0F) OR drop_bit 2 (c AND 0x3C)]"
| "decode_groups [a, b] = [push_bit 2 (a AND 0x3F) OR drop_bit 4 (b AND 0x30)]"
| "decode_groups _ = []"

definition base64_decode :: "utf16 \<Rightarrow> byte list" where
  "base64_decode s = decode_groups (sextets s)"

section \<open>\<open>formatFileSize\<close>\<close>

text \<open>
  \<open>formatFileSize\<close> computes on JavaScript numbers in floating point. Its three
  expressions on numbers are not evaluated here but taken from a record \<open>J\<close>, for any
  type \<open>'n\<close> of numbers:
  \<^item> \<open>is_zero J bytes\<close> is \<open>bytes === 0\<close>;
  \<^item> \<open>unit_index J bytes\<close> is the value \<open>i\<close> of
    \<open>Math.floor(Math.log(bytes) / Math.log(k))\<close> where that is a natural number, and
    \<open>None\<close> where it is negative, infinite or \<open>NaN\<close>;
  \<^item> \<open>scaled J bytes\<close> is the text that \<open>parseFloat((bytes / Math.pow(k, i)).toFixed(2))\<close>
    gives when \<open>+\<close> appends it to a string.

  \<open>sizes[i]\<close> outside the array is \<open>undefined\<close> and prints as that word.
\<close>

record 'n number_ops =
  is_zero :: "'n \<Rightarrow> bool"
  unit_index :: "'n \<Rightarrow> nat option"
  scaled :: "'n \<Rightarrow> string"

definition sizes :: "string list" where
  "sizes = [''B'', ''KB'', ''MB'', ''GB'']"

definition formatFileSize :: "'n number_ops \<Rightarrow> 'n \<Rightarrow> string" where
  "formatFileSize J bytes =
     (if is_zero J bytes then ''0 B''
      else
        let i = unit_index J bytes
        in scaled J bytes @ '' '' @
           (case i of
              Some j \<Rightarrow> (if j < length sizes then sizes ! j else ''undefined'')
            | None \<Rightarrow> ''undefined''))"

text \<open>
  One such record, for the examples: the numbers that are the integers from 0 to 1023,
  as \<open>10 word\<close>. On each of them from 1 on the logarithm to base 1024 lies from 0 up to
  but not including 1, so the index is 0, the quotient is the number itself, and it
  prints as its decimal numeral.
\<close>

definition digit_char :: "nat \<Rightarrow> char" where
  "digit_char d = ''0123456789'' ! d"

fun string_of_nat :: "nat \<Rightarrow> string" where
  "string_of_nat n =
     (if n < 10 then [digit_char n] else string_of_nat (n div 10) @ [digit_char (n mod 10)])"

declare string_of_nat.simps [simp del]

definition below_1024 :: "10 word number_ops" where
  "below_1024 =
     \<lparr>is_zero = (\<lambda>n. n = 0), unit_index = (\<lambda>n. Some 0),
      scaled = (\<lambda>n. string_of_nat (unat n))\<rparr>"

section \<open>File paths\<close>

text \<open>
  \<open>path.join\<close> of Node on a POSIX system, for two arguments: the arguments that are not
  empty are joined by \<open>/\<close> and the result is normalised. \<open>normalizeString\<close> goes through
  the segments between separators: an empty segment and \<open>.\<close> are dropped, \<open>..\<close> removes
  the segment before it, or stays when there is none to remove and the path is relative.
  A trailing separator is kept, and the empty path is \<open>.\<close>.
\<close>

fun split_sep :: "string \<Rightarrow> string list" where
  "split_sep [] = [[]]"
| "split_sep (c # cs) =
     (if c = CHR ''/'' then [] # split_sep cs
      else (case split_sep cs of
              [] \<Rightarrow> [[c]]
            | seg # segs \<Rightarrow> (c # seg) # segs))"

fun normalizeString :: "bool \<Rightarrow> string list \<Rightarrow> string list \<Rightarrow> string list" where
  "normalizeString allowAboveRoot res [] = res"
| "normalizeString allowAboveRoot res (seg # segs) =
     (if seg = [] \<or> seg = ''.'' then normalizeString allowAboveRoot res segs
      else if seg = ''..'' then
        (if res \<noteq> [] \<and> last res \<noteq> ''..''
           then normalizeString allowAboveRoot (butlast res) segs
         else if allowAboveRoot
           then normalizeString allowAboveRoot (res @ [''..'']) segs
         else normalizeString allowAboveRoot res segs)
      else normalizeString allowAboveRoot (res @ [seg]) segs)"

fun join_sep :: "string list \<Rightarrow> string" where
  "join_sep [] = []"
| "join_sep [seg] = seg"
| "join_sep (seg # segs) = seg @ ''/'' @ join_sep segs"

definition normalize :: "string \<Rightarrow> string" where
  "normalize p =
     (if p = [] then ''.''
      else
        let isAbsolute = (hd p = CHR ''/'');
            trailingSeparator = (last p = CHR ''/'');
            q = join_sep (normalizeString (\<not> isAbsolute) [] (split_sep p))
        in if q = [] then (if isAbsolute then ''/''
                           else if trailingSeparator then ''./'' else ''.'')
           else (if isAbsolute then ''/'' else []) @ q @
                (if trailingSeparator then ''/'' else []))"

definition path_join :: "string \<Rightarrow> string \<Rightarrow> string" where
  "path_join a b =
     (let joined = (if a = [] then b else if b = [] then a else a @ ''/'' @ b)
      in if joined = [] then ''.'' else normalize joined)"

section \<open>The handlers\<close>

definition handleUserJoin ::
  "ws \<Rightarrow> string \<Rightarrow> string \<Rightarrow> string \<Rightarrow> string \<Rightarrow> 'n hub \<Rightarrow> 'n hub" where
  "handleUserJoin w userId username nid now s =
     (let user = \<lparr>u_id = userId, u_username = username, u_ws = w\<rparr>;
          s1 = s\<lparr>users := AList.update userId user (users s)\<rparr>;
          joinMessage = \<lparr>m_id = nid, m_username = ''System'',
                         m_message = username @ '' joined the chat'',
                         m_timestamp = now, m_type = TSystem\<rparr>;
          s2 = broadcastMessage joinMessage s1;
          s3 = s2\<lparr>sent := sent s2 @ [(w, OutJoined (chatLog s2) (userList s2))]\<rparr>
      in broadcastUserList s3)"

definition handleChatMessage ::
  "string \<Rightarrow> string \<Rightarrow> string \<Rightarrow> string \<Rightarrow> 'n hub \<Rightarrow> 'n hub" where
  "handleChatMessage userId messageText nid now s =
     (case map_of (users s) userId of
        None \<Rightarrow> s
      | Some user \<Rightarrow>
          broadcastMessage
            \<lparr>m_id = nid, m_username = u_username user, m_message = messageText,
             m_timestamp = now, m_type = TMessage\<rparr> s)"

text \<open>The paperclip that opens the file notice, as its four bytes in UTF-8.\<close>

definition paperclip :: string where
  "paperclip =
     [CHR 0xF0, CHR 0x9F, CHR 0x93, CHR 0x8E]"

definition fileNoticeText :: "'n number_ops \<Rightarrow> 'n file_transfer \<Rightarrow> string" where
  "fileNoticeText J fd =
     paperclip @ '' Shared file: '' @ filename fd @
     '' ('' @ formatFileSize J (fileSize fd) @ '')''"

text \<open>
  \<open>handleFileTransfer\<close> returns at once for an identifier that is not registered.
  Otherwise it decodes the content and writes it at \<open>path.join("received", filename)\<close>;
  when \<open>fs.writeFileSync\<close> throws, the exception leaves the handler before anything is
  logged or sent (\<open>Inl\<close>).
\<close>

definition handleFileTransfer ::
  "'n number_ops \<Rightarrow> string \<Rightarrow> 'n file_transfer \<Rightarrow> string \<Rightarrow> string \<Rightarrow> 'n hub \<Rightarrow>
   error + 'n hub" where
  "handleFileTransfer J userId fd nid now s =
     (case map_of (users s) userId of
        None \<Rightarrow> Inr s
      | Some user \<Rightarrow>
          let filePath = path_join ''received'' (filename fd);
              buffer = base64_decode (fileData fd)
          in if \<not> writable s filePath then Inl (WriteFailed filePath)
             else
               let s1 = s\<lparr>received := (received s)(filePath \<mapsto> buffer)\<rparr>;
                   fileMessage = \<lparr>m_id = nid, m_username = u_username user,
                                  m_message = fileNoticeText J fd,
                                  m_timestamp = now, m_type = TFile\<rparr>;
                   s2 = broadcastMessage fileMessage s1
               in Inr (broadcastToOthers userId
                    (OutFileReceived
                       \<lparr>fn_filename = filename fd, fn_fileData = fileData fd,
                        fn_sender = u_username user, fn_fileSize = fileSize fd,
                        fn_downloadUrl = ''/api/download/'' @ filename fd\<rparr>) s2))"

definition handleUserDisconnect :: "string \<Rightarrow> string \<Rightarrow> string \<Rightarrow> 'n hub \<Rightarrow> 'n hub" where
  "handleUserDisconnect userId nid now s =
     (case map_of (users s) userId of
        None \<Rightarrow> s
      | Some user \<Rightarrow>
          let leaveMessage = \<lparr>m_id = nid, m_username = ''System'',
                              m_message = u_username user @ '' left the chat'',
                              m_timestamp = now, m_type = TSystem\<rparr>;
              s1 = broadcastMessage leaveMessage s;
              s2 = s1\<lparr>users := AList.delete userId (users s1)\<rparr>
          in broadcastUserList s2)"

definition handleWebSocketMessage ::
  "'n number_ops \<Rightarrow> ws \<Rightarrow> string \<Rightarrow> 'n inbound \<Rightarrow> string \<Rightarrow> string \<Rightarrow> 'n hub \<Rightarrow>
   error + 'n hub" where
  "handleWebSocketMessage J w userId message nid now s =
     (case message of
        InJoin username \<Rightarrow> Inr (handleUserJoin w userId username nid now s)
      | InMessage text \<Rightarrow> Inr (handleChatMessage userId text nid now s)
      | InFile d \<Rightarrow> handleFileTransfer J userId d nid now s
      | InOther t \<Rightarrow> Inr s)"

section \<open>Connections and runs\<close>

text \<open>
  \<open>setupWebSocketHandlers\<close> gives every connection its \<open>ws\<close> and a fresh \<open>userId\<close> and
  registers two callbacks that reach the state. The \<open>message\<close> callback hands the parsed
  frame to \<open>handleWebSocketMessage\<close> inside \<open>try\<close>: an exception that leaves the handler is
  caught there and logged, and the hub stays as the handler left it, which for the only
  exception modelled is as it was. A frame that \<open>JSON.parse\<close> rejects is caught the same
  way before any handler runs, so it is no event here. The \<open>close\<close> callback calls
  \<open>handleUserDisconnect\<close>. The other two events are the environment changing what a
  socket reports as its \<open>readyState\<close> and whether the file at a path can be written.
\<close>

datatype 'n event =
    WsMessage ws string "'n inbound" string string
  | WsClose string string string
  | WsReadyState ws ready_state
  | FsWritable string bool

fun step :: "'n number_ops \<Rightarrow> 'n hub \<Rightarrow> 'n event \<Rightarrow> 'n hub" where
  "step J s (WsMessage w userId message nid now) =
     (case handleWebSocketMessage J w userId message nid now s of
        Inl e \<Rightarrow> s
      | Inr s' \<Rightarrow> s')"
| "step J s (WsClose userId nid now) = handleUserDisconnect userId nid now s"
| "step J s (WsReadyState w r) = s\<lparr>readyState := (readyState s)(w := r)\<rparr>"
| "step J s (FsWritable f b) = s\<lparr>writable := (writable s)(f := b)\<rparr>"

definition run :: "'n number_ops \<Rightarrow> 'n hub \<Rightarrow> 'n event list \<Rightarrow> 'n hub" where
  "run J s evs = foldl (step J) s evs"

text \<open>
  The hub after the constructor: nobody registered, nothing logged, sent or stored, and
  every socket open. \<open>setupDirectories\<close> has made sure that \<open>received\<close> is a directory, so
  the write at the path \<open>received\<close> itself, which is where the empty file name leads,
  fails whatever the file system. What else can be written is the environment's to say. The
  file system of \<open>initial\<close> grants the write at \<open>received/name\<close> for \<open>name\<close> one ordinary
  path component (\<open>plain_name\<close>: not empty, not \<open>.\<close> or \<open>..\<close>, without separator or
  NUL, at most 255 long), which is what a fresh directory \<open>received\<close> allows; it grants
  no write at a path that leads below or out of that directory. \<open>FsWritable\<close> events
  change what is granted.
\<close>

definition plain_name :: "string \<Rightarrow> bool" where
  "plain_name f =
     (f \<noteq> [] \<and> f \<noteq> ''.'' \<and> f \<noteq> ''..'' \<and> CHR ''/'' \<notin> set f \<and> CHR 0x00 \<notin> set f \<and>
      length f \<le> 255)"

definition in_received :: "string \<Rightarrow> bool" where
  "in_received p = (take 9 p = ''received/'' \<and> plain_name (drop 9 p))"

definition initial :: "'n hub" where
  "initial =
     \<lparr>users = [], chatLog = [], chatlog_txt = [], received = Map.empty, sent = [],
      readyState = (\<lambda>w. OPEN), writable = in_received\<rparr>"

text \<open>\<open>is_join_of userId e\<close>: the event is a \<open>join\<close> frame on the connection \<open>userId\<close>.\<close>

fun is_join_of :: "string \<Rightarrow> 'n event \<Rightarrow> bool" where
  "is_join_of userId (WsMessage w k (InJoin username) nid now) = (k = userId)"
| "is_join_of userId e = False"

fun is_close_of :: "string \<Rightarrow> 'n event \<Rightarrow> bool" where
  "is_close_of userId (WsClose k nid now) = (k = userId)"
| "is_close_of userId e = False"

text \<open>
  The connections a run has seen frames of, as pairs of socket and identifier. In
  \<open>setupWebSocketHandlers\<close> each connection has its own \<open>ws\<close> object and its own
  \<open>nanoid()\<close>, so in the runs of the server two frames carry the same socket exactly when
  they carry the same identifier: \<open>one_socket_each\<close>.
\<close>

fun conn_of :: "'n event \<Rightarrow> (ws \<times> string) list" where
  "conn_of (WsMessage w userId message nid now) = [(w, userId)]"
| "conn_of e = []"

definition conns :: "'n event list \<Rightarrow> (ws \<times> string) list" where
  "conns evs = concat (map conn_of evs)"

definition one_socket_each :: "'n event list \<Rightarrow> bool" where
  "one_socket_each evs =
     list_all (\<lambda>(w, k). list_all (\<lambda>(w', k'). (w = w') = (k = k')) (conns evs)) (conns evs)"

text \<open>Shorthands for the statements below.\<close>

definition systemMessage :: "string \<Rightarrow> string \<Rightarrow> string \<Rightarrow> chat_message" where
  "systemMessage nid now text =
     \<lparr>m_id = nid, m_username = ''System'', m_message = text, m_timestamp = now,
      m_type = TSystem\<rparr>"

definition fanout ::
  "'n outbound \<Rightarrow> (string \<times> user) list \<Rightarrow> (ws \<Rightarrow> ready_state) \<Rightarrow> (ws \<times> 'n outbound) list" where
  "fanout d us rs = map (\<lambda>(k, u). (u_ws u, d)) (filter (\<lambda>(k, u). rs (u_ws u) = OPEN) us)"

definition publishAll :: "chat_message list \<Rightarrow> 'n hub \<Rightarrow> 'n hub" where
  "publishAll ms s = foldl (\<lambda>s m. broadcastMessage m s) s ms"

section \<open>What each function does to each field\<close>

lemma broadcast_fields [simp]:
  "users (broadcast d s) = users s"
  "chatLog (broadcast d s) = chatLog s"
  "chatlog_txt (broadcast d s) = chatlog_txt s"
  "received (broadcast d s) = received s"
  "readyState (broadcast d s) = readyState s"
  "writable (broadcast d s) = writable s"
  "sent (broadcast d s) = sent s @ fanout d (users s) (readyState s)"
  by (simp_all add: broadcast_def fanout_def)

lemma broadcastMessage_fields [simp]:
  "users (broadcastMessage m s) = users s"
  "chatLog (broadcastMessage m s) = chatLog s @ [m]"
  "received (broadcastMessage m s) = received s"
  "readyState (broadcastMessage m s) = readyState s"
  "writable (broadcastMessage m s) = writable s"
  "sent (broadcastMessage m s) = sent s @ fanout (OutMessage m) (users s) (readyState s)"
  by (simp_all add: broadcastMessage_def saveChatLog_def)

lemma broadcastUserList_fields [simp]:
  "users (broadcastUserList s) = users s"
  "chatLog (broadcastUserList s) = chatLog s"
  "received (broadcastUserList s) = received s"
  "readyState (broadcastUserList s) = readyState s"
  "writable (broadcastUserList s) = writable s"
  "sent (broadcastUserList s) =
     sent s @ fanout (OutUserList (userList s)) (users s) (readyState s)"
  by (simp_all add: broadcastUserList_def)

lemma broadcastToOthers_fields [simp]:
  "users (broadcastToOthers x d s) = users s"
  "chatLog (broadcastToOthers x d s) = chatLog s"
  "received (broadcastToOthers x d s) = received s"
  "readyState (broadcastToOthers x d s) = readyState s"
  "writable (broadcastToOthers x d s) = writable s"
  "sent (broadcastToOthers x d s) =
     sent s @ fanout d (filter (\<lambda>(k, u). k \<noteq> x) (users s)) (readyState s)"
  by (simp_all add: broadcastToOthers_def fanout_def case_prod_unfold)

lemma publishAll_chatLog: "chatLog (publishAll ms s) = chatLog s @ ms"
  unfolding publishAll_def by (induction ms arbitrary: s) simp_all

lemma fanout_target:
  "(w, d') \<in> set (fanout d us rs) \<Longrightarrow> d' = d \<and> (\<exists>k v. (k, v) \<in> set us \<and> u_ws v = w)"
  by (auto simp add: fanout_def)

lemma fanout_reaches:
  "(k, v) \<in> set us \<Longrightarrow> rs (u_ws v) = OPEN \<Longrightarrow> (u_ws v, d) \<in> set (fanout d us rs)"
  by (force simp add: fanout_def)

lemma users_handleUserJoin:
  "users (handleUserJoin w k name nid now s) =
     AList.update k \<lparr>u_id = k, u_username = name, u_ws = w\<rparr> (users s)"
  by (simp add: handleUserJoin_def Let_def)

lemma handleUserJoin_fields:
  "chatLog (handleUserJoin w k name nid now s) =
     chatLog s @ [systemMessage nid now (name @ '' joined the chat'')]"
  "received (handleUserJoin w k name nid now s) = received s"
  "readyState (handleUserJoin w k name nid now s) = readyState s"
  "writable (handleUserJoin w k name nid now s) = writable s"
  "sent (handleUserJoin w k name nid now s) =
     sent s @
     fanout (OutMessage (systemMessage nid now (name @ '' joined the chat'')))
       (AList.update k \<lparr>u_id = k, u_username = name, u_ws = w\<rparr> (users s)) (readyState s) @
     [(w, OutJoined (chatLog s @ [systemMessage nid now (name @ '' joined the chat'')])
            (map (\<lambda>(k, u). u_username u)
               (AList.update k \<lparr>u_id = k, u_username = name, u_ws = w\<rparr> (users s))))] @
     fanout (OutUserList (map (\<lambda>(k, u). u_username u)
               (AList.update k \<lparr>u_id = k, u_username = name, u_ws = w\<rparr> (users s))))
       (AList.update k \<lparr>u_id = k, u_username = name, u_ws = w\<rparr> (users s)) (readyState s)"
  by (simp_all add: handleUserJoin_def Let_def systemMessage_def userList_def)

lemma users_handleChatMessage: "users (handleChatMessage k t nid now s) = users s"
  by (simp add: handleChatMessage_def split: option.split)

lemma unjoined_noop:
  "map_of (users s) uid = None \<Longrightarrow>
   handleChatMessage uid t nid now s = s \<and> handleFileTransfer J uid fd nid now s = Inr s"
  by (simp add: handleChatMessage_def handleFileTransfer_def)

lemma split_sep_plain:
  "CHR ''/'' \<notin> set f \<Longrightarrow> split_sep f = [f]"
  by (induction f) auto

lemma path_join_received:
  assumes "plain_name f"
  shows "path_join ''received'' f = ''received/'' @ f"
proof -
  from assms have f: "f \<noteq> []" "f \<noteq> ''.''" "f \<noteq> ''..''" "CHR ''/'' \<notin> set f"
    by (simp_all add: plain_name_def)
  have sp: "split_sep (''received/'' @ f) = [''received'', f]"
    using f(4) by (simp add: split_sep_plain)
  have ns: "normalizeString True [] [''received'', f] = [''received'', f]"
    using f(1-3) by simp
  have lst: "last (''received/'' @ f) \<noteq> CHR ''/''"
    using f(1,4) by (metis last_appendR last_in_set)
  have "normalize (''received/'' @ f) = ''received/'' @ f"
    unfolding normalize_def Let_def sp
    using f(1-3) lst by (simp add: ns)
  then show ?thesis
    using f(1) by (simp add: path_join_def)
qed

lemma path_join_received_empty:
  "path_join ''received'' [] = ''received''"
  by (simp add: path_join_def normalize_def)

lemma in_received_plain:
  "plain_name f \<Longrightarrow> in_received (path_join ''received'' f)"
  by (simp add: path_join_received in_received_def)

lemma not_in_received_dir:
  "\<not> in_received (path_join ''received'' [])"
  by (simp add: path_join_received_empty in_received_def)

lemma handleFileTransfer_registered:
  "map_of (users s) k = Some u \<Longrightarrow> writable s (path_join ''received'' (filename fd)) \<Longrightarrow>
   handleFileTransfer J k fd nid now s =
     Inr (broadcastToOthers k
       (OutFileReceived
          \<lparr>fn_filename = filename fd, fn_fileData = fileData fd, fn_sender = u_username u,
           fn_fileSize = fileSize fd, fn_downloadUrl = ''/api/download/'' @ filename fd\<rparr>)
       (broadcastMessage
          \<lparr>m_id = nid, m_username = u_username u, m_message = fileNoticeText J fd,
           m_timestamp = now, m_type = TFile\<rparr>
          (s\<lparr>received := (received s)(path_join ''received'' (filename fd) \<mapsto> base64_decode (fileData fd))\<rparr>)))"
  by (simp add: handleFileTransfer_def Let_def)

lemma handleFileTransfer_failed:
  "map_of (users s) k = Some u \<Longrightarrow> \<not> writable s (path_join ''received'' (filename fd)) \<Longrightarrow>
   handleFileTransfer J k fd nid now s = Inl (WriteFailed (path_join ''received'' (filename fd)))"
  by (simp add: handleFileTransfer_def Let_def)

lemma handleFileTransfer_fields:
  assumes "map_of (users s) k = Some u" and "writable s (path_join ''received'' (filename fd))"
  shows "\<exists>s'. handleFileTransfer J k fd nid now s = Inr s'
      \<and> users s' = users s
      \<and> readyState s' = readyState s
      \<and> writable s' = writable s
      \<and> received s' = (received s)(path_join ''received'' (filename fd) \<mapsto> base64_decode (fileData fd))
      \<and> chatLog s' =
           chatLog s @ [\<lparr>m_id = nid, m_username = u_username u,
                         m_message = fileNoticeText J fd, m_timestamp = now, m_type = TFile\<rparr>]
      \<and> sent s' =
           sent s @
           fanout (OutMessage \<lparr>m_id = nid, m_username = u_username u,
                     m_message = fileNoticeText J fd, m_timestamp = now, m_type = TFile\<rparr>)
             (users s) (readyState s) @
           fanout (OutFileReceived
                     \<lparr>fn_filename = filename fd, fn_fileData = fileData fd,
                      fn_sender = u_username u, fn_fileSize = fileSize fd,
                      fn_downloadUrl = ''/api/download/'' @ filename fd\<rparr>)
             (filter (\<lambda>(k', v). k' \<noteq> k) (users s)) (readyState s)"
  by (simp add: handleFileTransfer_registered [OF assms])

lemma users_handleFileTransfer:
  "handleFileTransfer J k fd nid now s = Inr s' \<Longrightarrow> users s' = users s"
  by (auto simp add: handleFileTransfer_def Let_def split: option.splits if_splits)

lemma file_frame_dropped:
  "handleFileTransfer J k fd nid now s = Inl e \<Longrightarrow>
   step J s (WsMessage w k (InFile fd) nid now) = s"
  by (simp add: handleWebSocketMessage_def)

lemma file_frame_handled:
  "handleFileTransfer J k fd nid now s = Inr s' \<Longrightarrow>
   step J s (WsMessage w k (InFile fd) nid now) = s'"
  by (simp add: handleWebSocketMessage_def)

lemma users_handleUserDisconnect:
  "users (handleUserDisconnect k nid now s) = AList.delete k (users s)"
proof (cases "map_of (users s) k")
  case None
  then have "k \<notin> fst ` set (users s)"
    by (simp add: map_of_eq_None_iff)
  with None show ?thesis
    by (simp add: handleUserDisconnect_def)
next
  case (Some u)
  then show ?thesis
    by (simp add: handleUserDisconnect_def Let_def)
qed

lemma map_of_handleUserDisconnect:
  "map_of (users (handleUserDisconnect k nid now s)) = (map_of (users s))(k := None)"
  by (simp add: users_handleUserDisconnect delete_conv')

lemma handleUserDisconnect_fields:
  assumes "map_of (users s) k = Some u"
  shows "chatLog (handleUserDisconnect k nid now s) =
           chatLog s @ [systemMessage nid now (u_username u @ '' left the chat'')]"
    and "users (handleUserDisconnect k nid now s) = AList.delete k (users s)"
    and "received (handleUserDisconnect k nid now s) = received s"
    and "readyState (handleUserDisconnect k nid now s) = readyState s"
    and "sent (handleUserDisconnect k nid now s) =
           sent s @
           fanout (OutMessage (systemMessage nid now (u_username u @ '' left the chat'')))
             (users s) (readyState s) @
           fanout (OutUserList (map (\<lambda>(k, v). u_username v) (AList.delete k (users s))))
             (AList.delete k (users s)) (readyState s)"
  using assms
  by (simp_all add: handleUserDisconnect_def Let_def systemMessage_def userList_def)

lemma handleUserDisconnect_absent:
  "map_of (users s) k = None \<Longrightarrow> handleUserDisconnect k nid now s = s"
  by (simp add: handleUserDisconnect_def)

section \<open>The registry along a run\<close>

lemma update_has_own: "(k, v) \<in> set (AList.update k v al)"
  by (induction al) auto

lemma update_keeps_others:
  "(k, a) \<in> set al \<Longrightarrow> k \<noteq> k' \<Longrightarrow> (k, a) \<in> set (AList.update k' v al)"
  by (induction al) auto

lemma update_entry:
  "(k, v) \<in> set (AList.update k' v' al) \<Longrightarrow> (k, v) = (k', v') \<or> (k, v) \<in> set al"
  by (induction al) (auto split: if_splits)

lemma delete_entry: "(k, v) \<in> set (AList.delete k' al) \<Longrightarrow> (k, v) \<in> set al"
  by (induction al) (auto split: if_splits)

lemma delete_as_filter: "AList.delete k al = filter (\<lambda>(k', v). k' \<noteq> k) al"
  by (induction al) auto

lemma run_snoc: "run J s (evs @ [e]) = step J (run J s evs) e"
  by (simp add: run_def)

text \<open>A frame other than a \<open>join\<close> leaves the registry as it is.\<close>

lemma users_step_frame:
  "\<forall>name. m \<noteq> InJoin name \<Longrightarrow> users (step J s (WsMessage w k m nid now)) = users s"
  by (cases m)
     (auto simp add: handleWebSocketMessage_def users_handleChatMessage
        users_handleFileTransfer split: sum.splits)

lemma map_of_users_step:
  "\<not> is_join_of uid e \<Longrightarrow> \<not> is_close_of uid e \<Longrightarrow>
   map_of (users (step J s e)) uid = map_of (users s) uid"
proof (cases e)
  case (WsMessage w k m nid now)
  assume nj: "\<not> is_join_of uid e"
  show ?thesis
  proof (cases "\<exists>name. m = InJoin name")
    case True
    with WsMessage nj show ?thesis
      by (auto simp add: handleWebSocketMessage_def users_handleUserJoin update_conv')
  next
    case False
    then have "users (step J s (WsMessage w k m nid now)) = users s"
      by (intro users_step_frame) simp
    with WsMessage show ?thesis by simp
  qed
next
  case (WsClose k nid now)
  assume "\<not> is_close_of uid e"
  with WsClose show ?thesis
    by (simp add: map_of_handleUserDisconnect)
next
  case (WsReadyState w r)
  then show ?thesis by simp
next
  case (FsWritable f b)
  then show ?thesis by simp
qed

lemma map_of_users_run:
  "\<not> list_ex (\<lambda>e. is_join_of uid e \<or> is_close_of uid e) evs \<Longrightarrow>
   map_of (users (run J s evs)) uid = map_of (users s) uid"
proof (induction evs rule: rev_induct)
  case Nil
  then show ?case by (simp add: run_def)
next
  case (snoc e evs)
  then show ?case
    by (simp add: run_snoc map_of_users_step)
qed

lemma absent_step:
  "map_of (users s) uid = None \<Longrightarrow> \<not> is_join_of uid e \<Longrightarrow>
   map_of (users (step J s e)) uid = None"
proof (cases "is_close_of uid e")
  case True
  then obtain nid now where "e = WsClose uid nid now"
    by (cases e) simp_all
  then show ?thesis
    by (simp add: map_of_handleUserDisconnect)
next
  case False
  assume "map_of (users s) uid = None" "\<not> is_join_of uid e"
  with False show ?thesis
    by (simp add: map_of_users_step)
qed

lemma absent_run:
  "map_of (users s) uid = None \<Longrightarrow> \<not> list_ex (is_join_of uid) evs \<Longrightarrow>
   map_of (users (run J s evs)) uid = None"
proof (induction evs rule: rev_induct)
  case Nil
  then show ?case by (simp add: run_def)
next
  case (snoc e evs)
  then show ?case
    by (simp add: run_snoc absent_step)
qed

lemma entry_step:
  "(k, v) \<in> set (users (step J s e)) \<Longrightarrow>
   (k, v) \<in> set (users s) \<or> (u_ws v, k) \<in> set (conn_of e)"
proof (cases e)
  case (WsMessage w k' m nid now)
  assume in_step: "(k, v) \<in> set (users (step J s e))"
  show ?thesis
  proof (cases "\<exists>name. m = InJoin name")
    case True
    with WsMessage in_step show ?thesis
      by (auto simp add: handleWebSocketMessage_def users_handleUserJoin dest!: update_entry)
  next
    case False
    then have "users (step J s (WsMessage w k' m nid now)) = users s"
      by (intro users_step_frame) simp
    with WsMessage in_step show ?thesis by simp
  qed
next
  case (WsClose k' nid now)
  assume "(k, v) \<in> set (users (step J s e))"
  with WsClose show ?thesis
    by (auto simp add: users_handleUserDisconnect dest: delete_entry)
next
  case (WsReadyState w r)
  assume "(k, v) \<in> set (users (step J s e))"
  with WsReadyState show ?thesis by simp
next
  case (FsWritable f b)
  assume "(k, v) \<in> set (users (step J s e))"
  with FsWritable show ?thesis by simp
qed

lemma entry_run:
  "(k, v) \<in> set (users (run J initial evs)) \<Longrightarrow> (u_ws v, k) \<in> set (conns evs)"
proof (induction evs arbitrary: k v rule: rev_induct)
  case Nil
  then show ?case by (simp add: run_def initial_def)
next
  case (snoc e evs)
  from snoc.prems have "(k, v) \<in> set (users (step J (run J initial evs) e))"
    by (simp add: run_snoc)
  then have "(k, v) \<in> set (users (run J initial evs)) \<or> (u_ws v, k) \<in> set (conn_of e)"
    by (rule entry_step)
  with snoc.IH show ?case
    by (auto simp add: conns_def)
qed

text \<open>
  In a run of the server no two registered participants hold the same socket.
\<close>

lemma sockets_apart:
  assumes "one_socket_each evs"
    and "map_of (users (run J initial evs)) userId = Some u"
  shows "\<forall>(k, v) \<in> set (users (run J initial evs)). k \<noteq> userId \<longrightarrow> u_ws v \<noteq> u_ws u"
proof (clarify)
  fix k v
  assume kv: "(k, v) \<in> set (users (run J initial evs))" and ne: "k \<noteq> userId"
    and same: "u_ws v = u_ws u"
  from assms(2) have "(userId, u) \<in> set (users (run J initial evs))"
    by (rule map_of_SomeD)
  then have a: "(u_ws u, userId) \<in> set (conns evs)"
    by (rule entry_run)
  from kv have b: "(u_ws v, k) \<in> set (conns evs)"
    by (rule entry_run)
  from assms(1) a b have "(u_ws v = u_ws u) = (k = userId)"
    by (auto simp add: one_socket_each_def list_all_iff)
  with ne same show False by simp
qed

section \<open>\<open>formatFileSize\<close> on the numbers below 1024\<close>

lemma formatFileSize_below_1024:
  "formatFileSize below_1024 0 = ''0 B''"
  "formatFileSize below_1024 3 = ''3 B''"
  "formatFileSize below_1024 10 = ''10 B''"
  "formatFileSize below_1024 999 = ''999 B''"
  "formatFileSize below_1024 1023 = ''1023 B''"
  by (simp_all add: formatFileSize_def below_1024_def string_of_nat.simps digit_char_def
      sizes_def)

section \<open>Encoding and decoding are inverse\<close>

lemma table_all:
  "\<forall>n\<in>set [0..<64].
     unbase64 (low8 (of_char (b64_table ! n))) = of_nat n \<and>
     low8 (of_char (b64_table ! n)) \<noteq> 0x3D"
  by code_simp

lemma table_legal:
  assumes "unat v < 64"
  shows "unbase64 (low8 (table v)) = v" and "low8 (table v) \<noteq> 0x3D"
proof -
  from assms have "unat v \<in> set [0..<64]" by simp
  with table_all
  have "unbase64 (low8 (of_char (b64_table ! unat v))) = of_nat (unat v) \<and>
        low8 (of_char (b64_table ! unat v)) \<noteq> 0x3D"
    by blast
  then show "unbase64 (low8 (table v)) = v" and "low8 (table v) \<noteq> 0x3D"
    by (simp_all add: table_def)
qed

lemma sextets_table: "unat v < 64 \<Longrightarrow> sextets (table v # s) = v # sextets s"
  by (simp add: sextets_def table_legal word_less_nat_alt)

lemma sextets_pad: "sextets (pad # s) = []"
  by (simp add: sextets_def pad_def low8_def)

lemma sextets_Nil: "sextets [] = []"
  by (simp add: sextets_def)

text \<open>
  The masks of the two codecs as bit masks, and the eight bit positions of a byte.
\<close>

lemma mask_consts:
  "(0x3F::byte) = mask 6" "(3::byte) = mask 2" "(0x0F::byte) = mask 4"
  "(0x30::byte) = push_bit 4 (mask 2)" "(0x3C::byte) = push_bit 2 (mask 4)"
  by (simp_all add: mask_eq_exp_minus_1)

lemma bit_position:
  "n < LENGTH(8) \<Longrightarrow>
   n \<in> {0, 1, 2, 3, 4, 5, 6, 7::nat}"
  by auto

lemmas bit_norm = bit_simps numeral_2_eq_2 [symmetric] numeral_3_eq_3 [symmetric]

lemma first_byte:
  "push_bit 2 (drop_bit 2 a AND 0x3F) OR
   drop_bit 4 ((push_bit 4 (a AND 3) OR drop_bit 4 b) AND 0x30) = (a::byte)"
  unfolding mask_consts
  by (rule bit_word_eqI, drule bit_position) (auto simp add: bit_norm dest: bit_imp_le_length)

lemma second_byte:
  "push_bit 4 ((push_bit 4 (a AND 3) OR drop_bit 4 b) AND 0x0F) OR
   drop_bit 2 ((push_bit 2 (b AND 0x0f) OR drop_bit 6 c) AND 0x3C) = (b::byte)"
  unfolding mask_consts
  by (rule bit_word_eqI, drule bit_position) (auto simp add: bit_norm dest: bit_imp_le_length)

lemma third_byte:
  "push_bit 6 ((push_bit 2 (b AND 0x0f) OR drop_bit 6 c) AND 0x03) OR
   ((c AND 0x3f) AND 0x3F) = (c::byte)"
  unfolding mask_consts
  by (rule bit_word_eqI, drule bit_position) (auto simp add: bit_norm dest: bit_imp_le_length)

lemma first_byte_padded:
  "push_bit 2 (drop_bit 2 a AND 0x3F) OR drop_bit 4 (push_bit 4 (a AND 3) AND 0x30) = (a::byte)"
  unfolding mask_consts
  by (rule bit_word_eqI, drule bit_position) (auto simp add: bit_norm dest: bit_imp_le_length)

lemma second_byte_padded:
  "push_bit 4 ((push_bit 4 (a AND 3) OR drop_bit 4 b) AND 0x0F) OR
   drop_bit 2 (push_bit 2 (b AND 0x0f) AND 0x3C) = (b::byte)"
  unfolding mask_consts
  by (rule bit_word_eqI, drule bit_position) (auto simp add: bit_norm dest: bit_imp_le_length)

lemma six_bits: "(v::byte) AND mask 6 = v \<Longrightarrow> unat v < 64"
  using and_mask_less' [of 6 v] by (simp add: word_less_nat_alt)

lemma sextet1: "unat (drop_bit 2 (a::byte)) < 64"
  by (rule six_bits, rule bit_word_eqI, drule bit_position)
     (auto simp add: bit_norm dest: bit_imp_le_length)

lemma sextet2: "unat (push_bit 4 (a AND 3) OR drop_bit 4 (b::byte)) < 64"
  unfolding mask_consts
  by (rule six_bits, rule bit_word_eqI, drule bit_position)
     (auto simp add: bit_norm dest: bit_imp_le_length)

lemma sextet3: "unat (push_bit 2 (b AND 0x0f) OR drop_bit 6 (c::byte)) < 64"
  unfolding mask_consts
  by (rule six_bits, rule bit_word_eqI, drule bit_position)
     (auto simp add: bit_norm dest: bit_imp_le_length)

lemma sextet4: "unat ((c::byte) AND 0x3f) < 64"
  unfolding mask_consts
  by (rule six_bits, rule bit_word_eqI, drule bit_position)
     (auto simp add: bit_norm dest: bit_imp_le_length)

lemma sextet3_padded: "unat (push_bit 2 ((b::byte) AND 0x0f)) < 64"
  using sextet3 [of b 0] by simp

lemma sextet2_padded: "unat (push_bit 4 ((a::byte) AND 3)) < 64"
  using sextet2 [of a 0] by simp

lemma base64_roundtrip: "base64_decode (base64_encode bs) = bs"
proof (induction bs rule: base64_encode.induct)
  case (1 a b c rest)
  then have IH: "decode_groups (sextets (base64_encode rest)) = rest"
    by (simp only: base64_decode_def)
  show ?case
    by (simp only: base64_decode_def base64_encode.simps append_Cons append_Nil
        sextets_table [OF sextet1] sextets_table [OF sextet2] sextets_table [OF sextet3]
        sextets_table [OF sextet4] decode_groups.simps IH first_byte second_byte third_byte)
next
  case (2 a b)
  show ?case
    by (simp only: base64_decode_def base64_encode.simps append_Cons append_Nil
        sextets_table [OF sextet1] sextets_table [OF sextet2]
        sextets_table [OF sextet3_padded] sextets_pad decode_groups.simps
        first_byte second_byte_padded)
next
  case (3 a)
  show ?case
    by (simp only: base64_decode_def base64_encode.simps append_Cons append_Nil
        sextets_table [OF sextet1] sextets_table [OF sextet2_padded]
        sextets_pad decode_groups.simps first_byte_padded)
next
  case 4
  show ?case by (simp add: base64_decode_def sextets_Nil)
qed

text \<open>The decoder on what is not base64: it stops at the padding and skips the rest.\<close>

lemma takeWhile_stop: "\<not> P c \<Longrightarrow> takeWhile P (xs @ c # ys) = takeWhile P xs"
  by (induction xs) simp_all

lemma decode_stops_at_pad:
  "low8 c = 0x3D \<Longrightarrow> base64_decode (xs @ c # ys) = base64_decode xs"
  by (simp add: base64_decode_def sextets_def takeWhile_stop)

lemma decode_skips_illegal:
  "\<not> unbase64 (low8 c) < 64 \<Longrightarrow> low8 c \<noteq> 0x3D \<Longrightarrow>
   base64_decode (xs @ c # ys) = base64_decode (xs @ ys)"
  by (simp add: base64_decode_def sextets_def takeWhile_append)

lemma encode_three: "base64_encode [0x00, 0xFF, 0x10] = js ''AP8Q''"
  by (simp add: table_def b64_table_def js_def)

lemma decode_three: "base64_decode (js ''AP8Q'') = [0x00, 0xFF, 0x10]"
  using base64_roundtrip [of "[0x00, 0xFF, 0x10]"] by (simp only: encode_three)

lemma encode_ten:
  "base64_encode [1, 2, 3, 4, 5, 6, 7, 8, 9, 10] = js ''AQIDBAUGBwgJCg==''"
  by (simp add: table_def b64_table_def js_def pad_def)

lemma decode_ten: "base64_decode (js ''AQIDBAUGBwgJCg=='') = [1, 2, 3, 4, 5, 6, 7, 8, 9, 10]"
  using base64_roundtrip [of "[1, 2, 3, 4, 5, 6, 7, 8, 9, 10]"] by (simp only: encode_ten)

lemma unbase64_illegal:
  "c \<notin> of_char ` set b64_table \<Longrightarrow> c \<noteq> 0x2D \<Longrightarrow> c \<noteq> 0x5F \<Longrightarrow> unbase64 c = 255"
proof -
  assume a: "c \<notin> of_char ` set b64_table" "c \<noteq> 0x2D" "c \<noteq> 0x5F"
  have "map_of (zip (map of_char b64_table) (map of_nat [0..<64] :: byte list)) c = None"
    using a(1) by (auto simp add: map_of_eq_None_iff dest: set_zip_leftD)
  with a(2,3) show ?thesis
    by (simp add: unbase64_def unbase64_table_def map_add_def)
qed

lemma unbase64_bang: "unbase64 0x21 = 255"
  by (rule unbase64_illegal) (simp_all add: b64_table_def)

lemma decode_bangs: "base64_decode (js ''!!!'') = []"
  using unbase64_bang by (simp add: base64_decode_def sextets_def js_def low8_def)

text \<open>
  A unit beyond the 8-bit range is read by its low byte: U+0141 counts as \<open>A\<close>, and the
  two characters \<open>Q\<close> and U+0141 before the padding decode to the byte 64.
\<close>

lemma decode_low_byte: "base64_decode [0x51, 0x141, 0x3D, 0x3D] = [64]"
proof -
  have l: "low8 0x51 = 0x51" "low8 0x141 = 0x41" "low8 0x3D = 0x3D"
    by (simp_all add: low8_def)
  have t: "table 16 = 0x51" "table 0 = 0x41"
    by (simp_all add: table_def b64_table_def)
  have "unbase64 (low8 (table 16)) = 16" "unbase64 (low8 (table 0)) = 0"
    by (simp_all add: table_legal)
  then have u: "unbase64 0x51 = 16" "unbase64 0x41 = 0"
    by (simp_all add: t low8_def)
  have "sextets [0x51, 0x141, 0x3D, 0x3D] = [16, 0]"
    by (simp add: sextets_def l u)
  then show ?thesis
    by (simp add: base64_decode_def)
qed

section \<open>The claims\<close>

text \<open>
  C1 fails on the code. \<open>handleUserJoin\<close> neither trims nor tests the name. On the hub as
  constructed, a \<open>join\<close> frame with the empty name registers the participant under the
  empty name, logs the event \<open> joined the chat\<close> and sends it, the \<open>joined\<close> snapshot and
  the user list; a \<open>join\<close> frame whose name is two blanks does the same.
\<close>

theorem C1_empty_name_counterexample:
  "chatLog (step below_1024 initial (WsMessage 1 ''c1'' (InJoin []) ''n1'' ''t1'')) =
     [\<lparr>m_id = ''n1'', m_username = ''System'', m_message = '' joined the chat'',
       m_timestamp = ''t1'', m_type = TSystem\<rparr>]
   \<and> map_of (users (step below_1024 initial (WsMessage 1 ''c1'' (InJoin []) ''n1'' ''t1'')))
        ''c1'' =
     Some \<lparr>u_id = ''c1'', u_username = [], u_ws = 1\<rparr>
   \<and> sent (step below_1024 initial (WsMessage 1 ''c1'' (InJoin []) ''n1'' ''t1'')) =
     [(1, OutMessage \<lparr>m_id = ''n1'', m_username = ''System'',
            m_message = '' joined the chat'', m_timestamp = ''t1'', m_type = TSystem\<rparr>),
      (1, OutJoined [\<lparr>m_id = ''n1'', m_username = ''System'',
            m_message = '' joined the chat'', m_timestamp = ''t1'', m_type = TSystem\<rparr>] [[]]),
      (1, OutUserList [[]])]
   \<and> chatLog (step below_1024 initial (WsMessage 1 ''c1'' (InJoin ''  '') ''n1'' ''t1'')) =
     [\<lparr>m_id = ''n1'', m_username = ''System'', m_message = ''   joined the chat'',
       m_timestamp = ''t1'', m_type = TSystem\<rparr>]
   \<and> map_of (users (step below_1024 initial (WsMessage 1 ''c1'' (InJoin ''  '') ''n1'' ''t1'')))
        ''c1'' =
     Some \<lparr>u_id = ''c1'', u_username = ''  '', u_ws = 1\<rparr>"
  by (simp add: handleWebSocketMessage_def handleUserJoin_fields users_handleUserJoin
      systemMessage_def fanout_def initial_def)

text \<open>
  C1, as the code has it. No \<open>join\<close> frame is rejected: the handler returns normally for
  every name. With an empty or blank name as with any other it registers the participant
  under the name as given, appends the system event \<open><name> joined the chat\<close> to the log,
  sends that event to every registered participant whose socket is \<open>OPEN\<close>, the joining
  one included, then the \<open>joined\<close> snapshot to the joining socket, then the user list.
\<close>

theorem C1_join_accepts_every_name:
  "handleWebSocketMessage J w userId (InJoin username) nid now s =
     Inr (handleUserJoin w userId username nid now s)
   \<and> step J s (WsMessage w userId (InJoin username) nid now) =
     handleUserJoin w userId username nid now s
   \<and> map_of (users (handleUserJoin w userId username nid now s)) userId =
     Some \<lparr>u_id = userId, u_username = username, u_ws = w\<rparr>
   \<and> chatLog (handleUserJoin w userId username nid now s) =
     chatLog s @ [\<lparr>m_id = nid, m_username = ''System'',
                   m_message = username @ '' joined the chat'',
                   m_timestamp = now, m_type = TSystem\<rparr>]
   \<and> sent (handleUserJoin w userId username nid now s) =
     sent s @
     fanout (OutMessage \<lparr>m_id = nid, m_username = ''System'',
                m_message = username @ '' joined the chat'',
                m_timestamp = now, m_type = TSystem\<rparr>)
       (users (handleUserJoin w userId username nid now s)) (readyState s) @
     [(w, OutJoined (chatLog (handleUserJoin w userId username nid now s))
            (userList (handleUserJoin w userId username nid now s)))] @
     fanout (OutUserList (userList (handleUserJoin w userId username nid now s)))
       (users (handleUserJoin w userId username nid now s)) (readyState s)
   \<and> (\<forall>(k, v) \<in> set (users (handleUserJoin w userId username nid now s)).
         readyState s (u_ws v) = OPEN \<longrightarrow>
         (u_ws v, OutMessage \<lparr>m_id = nid, m_username = ''System'',
                     m_message = username @ '' joined the chat'',
                     m_timestamp = now, m_type = TSystem\<rparr>)
           \<in> set (sent (handleUserJoin w userId username nid now s)))"
proof -
  let ?s' = "handleUserJoin w userId username nid now s"
  let ?jm = "OutMessage \<lparr>m_id = nid, m_username = ''System'',
                m_message = username @ '' joined the chat'',
                m_timestamp = now, m_type = TSystem\<rparr>"
  have snt: "sent ?s' =
     sent s @ fanout ?jm (users ?s') (readyState s) @
     [(w, OutJoined (chatLog ?s') (userList ?s'))] @
     fanout (OutUserList (userList ?s')) (users ?s') (readyState s)"
    by (simp add: handleUserJoin_fields users_handleUserJoin systemMessage_def userList_def)
  have reach: "\<forall>(k, v) \<in> set (users ?s').
      readyState s (u_ws v) = OPEN \<longrightarrow> (u_ws v, ?jm) \<in> set (sent ?s')"
  proof (clarify)
    fix k v
    assume "(k, v) \<in> set (users ?s')" "readyState s (u_ws v) = OPEN"
    then have "(u_ws v, ?jm) \<in> set (fanout ?jm (users ?s') (readyState s))"
      by (rule fanout_reaches)
    then show "(u_ws v, ?jm) \<in> set (sent ?s')"
      by (simp only: snt set_append Un_iff) blast
  qed
  have rest: "handleWebSocketMessage J w userId (InJoin username) nid now s = Inr ?s'"
    "step J s (WsMessage w userId (InJoin username) nid now) = ?s'"
    "map_of (users ?s') userId = Some \<lparr>u_id = userId, u_username = username, u_ws = w\<rparr>"
    "chatLog ?s' =
       chatLog s @ [\<lparr>m_id = nid, m_username = ''System'',
                     m_message = username @ '' joined the chat'',
                     m_timestamp = now, m_type = TSystem\<rparr>]"
    by (simp_all add: handleWebSocketMessage_def handleUserJoin_fields users_handleUserJoin
        systemMessage_def update_conv')
  from rest snt reach show ?thesis by blast
qed

theorem C1_join_accepts_every_name_witness:
  "readyState (handleUserJoin 1 ''c1'' ''A'' ''n1'' ''t1'' (initial :: 10 word hub)) 1 = OPEN
   \<and> users (handleUserJoin 2 ''c2'' [] ''n2'' ''t2''
        (handleUserJoin 1 ''c1'' ''A'' ''n1'' ''t1'' (initial :: 10 word hub))) =
      [(''c1'', \<lparr>u_id = ''c1'', u_username = ''A'', u_ws = 1\<rparr>),
       (''c2'', \<lparr>u_id = ''c2'', u_username = [], u_ws = 2\<rparr>)]
   \<and> (1, OutMessage \<lparr>m_id = ''n2'', m_username = ''System'',
            m_message = '' joined the chat'', m_timestamp = ''t2'', m_type = TSystem\<rparr>)
      \<in> set (sent (handleUserJoin 2 ''c2'' [] ''n2'' ''t2''
           (handleUserJoin 1 ''c1'' ''A'' ''n1'' ''t1'' (initial :: 10 word hub))))
   \<and> (2, OutMessage \<lparr>m_id = ''n2'', m_username = ''System'',
            m_message = '' joined the chat'', m_timestamp = ''t2'', m_type = TSystem\<rparr>)
      \<in> set (sent (handleUserJoin 2 ''c2'' [] ''n2'' ''t2''
           (handleUserJoin 1 ''c1'' ''A'' ''n1'' ''t1'' (initial :: 10 word hub))))"
  using C1_join_accepts_every_name [of below_1024 2 "''c2''" "[]" "''n2''" "''t2''"
      "handleUserJoin 1 ''c1'' ''A'' ''n1'' ''t1'' initial"]
  by (simp add: handleWebSocketMessage_def handleUserJoin_fields users_handleUserJoin
      systemMessage_def fanout_def initial_def)

text \<open>
  C2 fails on the code where it speaks of a decode error. The string \<open>!!!\<close> has no
  character of the base64 alphabet and is not the padding; sent as the content of a file
  by a registered participant it is decoded to no bytes without an error, a file of that
  content is written where there was none, and a file notice is appended to the log.
\<close>

theorem C2_invalid_content_counterexample:
  "CHR ''!'' \<notin> set (CHR ''='' # b64_table)
   \<and> map_of (users (handleUserJoin 1 ''c1'' ''A'' ''n1'' ''t1'' (initial :: 10 word hub)))
        ''c1'' =
       Some \<lparr>u_id = ''c1'', u_username = ''A'', u_ws = 1\<rparr>
   \<and> path_join ''received'' ''x.bin'' = ''received/x.bin''
   \<and> received (handleUserJoin 1 ''c1'' ''A'' ''n1'' ''t1'' (initial :: 10 word hub))
        ''received/x.bin'' = None
   \<and> handleFileTransfer below_1024 ''c1''
        \<lparr>filename = ''x.bin'', fileData = js ''!!!'', fileSize = 3, sender = ''A''\<rparr>
        ''n2'' ''t2'' (handleUserJoin 1 ''c1'' ''A'' ''n1'' ''t1'' initial) =
      Inr (step below_1024 (handleUserJoin 1 ''c1'' ''A'' ''n1'' ''t1'' initial)
        (WsMessage 1 ''c1''
           (InFile \<lparr>filename = ''x.bin'', fileData = js ''!!!'', fileSize = 3, sender = ''A''\<rparr>)
           ''n2'' ''t2''))
   \<and> received
        (step below_1024 (handleUserJoin 1 ''c1'' ''A'' ''n1'' ''t1'' initial)
           (WsMessage 1 ''c1''
              (InFile \<lparr>filename = ''x.bin'', fileData = js ''!!!'', fileSize = 3,
                 sender = ''A''\<rparr>)
              ''n2'' ''t2''))
        ''received/x.bin'' = Some []
   \<and> length (chatLog
        (step below_1024 (handleUserJoin 1 ''c1'' ''A'' ''n1'' ''t1'' initial)
           (WsMessage 1 ''c1''
              (InFile \<lparr>filename = ''x.bin'', fileData = js ''!!!'', fileSize = 3,
                 sender = ''A''\<rparr>)
              ''n2'' ''t2''))) =
      Suc (length (chatLog (handleUserJoin 1 ''c1'' ''A'' ''n1'' ''t1'' (initial :: 10 word hub))))
   \<and> m_type (last (chatLog
        (step below_1024 (handleUserJoin 1 ''c1'' ''A'' ''n1'' ''t1'' initial)
           (WsMessage 1 ''c1''
              (InFile \<lparr>filename = ''x.bin'', fileData = js ''!!!'', fileSize = 3,
                 sender = ''A''\<rparr>)
              ''n2'' ''t2'')))) = TFile"
proof -
  let ?s = "handleUserJoin 1 ''c1'' ''A'' ''n1'' ''t1'' (initial :: 10 word hub)"
  let ?fd = "\<lparr>filename = ''x.bin'', fileData = js ''!!!'', fileSize = 3 :: 10 word,
               sender = ''A''\<rparr>"
  have h: "map_of (users ?s) ''c1'' = Some \<lparr>u_id = ''c1'', u_username = ''A'', u_ws = 1\<rparr>"
    by (simp add: users_handleUserJoin initial_def)
  have pj: "path_join ''received'' ''x.bin'' = ''received/x.bin''"
    by (simp add: path_join_received plain_name_def)
  have wr: "writable ?s (path_join ''received'' (filename ?fd))"
    by (simp add: handleUserJoin_fields initial_def in_received_plain plain_name_def)
  have r0: "received ?s ''received/x.bin'' = None"
    by (simp add: handleUserJoin_fields initial_def)
  have alphabet: "CHR ''!'' \<notin> set (CHR ''='' # b64_table)"
    by (simp add: b64_table_def)
  from handleFileTransfer_fields [OF h wr, of below_1024 "''n2''" "''t2''"]
  obtain s' where ok: "handleFileTransfer below_1024 ''c1'' ?fd ''n2'' ''t2'' ?s = Inr s'"
    and rc: "received s' =
      (received ?s)(path_join ''received'' (filename ?fd) \<mapsto> base64_decode (fileData ?fd))"
    and cl: "chatLog s' =
           chatLog ?s @ [\<lparr>m_id = ''n2'', m_username = u_username \<lparr>u_id = ''c1'',
                           u_username = ''A'', u_ws = 1\<rparr>,
                         m_message = fileNoticeText below_1024 ?fd, m_timestamp = ''t2'',
                         m_type = TFile\<rparr>]"
    by blast
  have st: "step below_1024 ?s (WsMessage 1 ''c1'' (InFile ?fd) ''n2'' ''t2'') = s'"
    using ok by (rule file_frame_handled)
  show ?thesis
    unfolding st
    using h r0 alphabet ok decode_bangs pj
    by (simp add: rc cl del: One_nat_def)
qed

text \<open>
  C2, as the code has it. A file frame from an identifier that is not registered changes
  nothing: no file, no event, the hub is as before. There is no decode error:
  \<open>Buffer.from(..., "base64")\<close> accepts every string, stopping at the first unit that
  reads as the padding and skipping every other unit that does not read as a character
  of base64. So for a registered sender, where the file can be written, every content is
  decoded, the result is written at the path \<open>path.join("received", filename)\<close>, and the
  file notice is logged and sent to every \<open>OPEN\<close> socket. Where the file cannot be written the exception of the write
  leaves the handler, and nothing is stored, logged or sent.
\<close>

theorem C2_unknown_sender_noop_any_content_written:
  "(map_of (users s) userId = None \<longrightarrow>
      handleFileTransfer J userId fd nid now s = Inr s
      \<and> step J s (WsMessage w userId (InFile fd) nid now) = s)
   \<and> (map_of (users s) userId = Some u \<and> writable s (path_join ''received'' (filename fd)) \<longrightarrow>
        (\<exists>s'. handleFileTransfer J userId fd nid now s = Inr s'
           \<and> step J s (WsMessage w userId (InFile fd) nid now) = s'
           \<and> received s' (path_join ''received'' (filename fd)) = Some (base64_decode (fileData fd))
           \<and> chatLog s' =
               chatLog s @ [\<lparr>m_id = nid, m_username = u_username u,
                             m_message = fileNoticeText J fd, m_timestamp = now,
                             m_type = TFile\<rparr>]
           \<and> sent s' =
               sent s @
               fanout (OutMessage \<lparr>m_id = nid, m_username = u_username u,
                         m_message = fileNoticeText J fd, m_timestamp = now, m_type = TFile\<rparr>)
                 (users s) (readyState s) @
               fanout (OutFileReceived
                         \<lparr>fn_filename = filename fd, fn_fileData = fileData fd,
                          fn_sender = u_username u, fn_fileSize = fileSize fd,
                          fn_downloadUrl = ''/api/download/'' @ filename fd\<rparr>)
                 (filter (\<lambda>(k, v). k \<noteq> userId) (users s)) (readyState s)))
   \<and> (map_of (users s) userId = Some u \<and> \<not> writable s (path_join ''received'' (filename fd)) \<longrightarrow>
        handleFileTransfer J userId fd nid now s = Inl (WriteFailed (path_join ''received'' (filename fd)))
        \<and> step J s (WsMessage w userId (InFile fd) nid now) = s)
   \<and> (low8 c = 0x3D \<longrightarrow> base64_decode (xs @ c # ys) = base64_decode xs)
   \<and> (\<not> unbase64 (low8 c) < 64 \<and> low8 c \<noteq> 0x3D \<longrightarrow>
        base64_decode (xs @ c # ys) = base64_decode (xs @ ys))"
proof -
  have unknown: "handleFileTransfer J userId fd nid now s = Inr s
      \<and> step J s (WsMessage w userId (InFile fd) nid now) = s"
    if "map_of (users s) userId = None"
    using that by (simp add: unjoined_noop handleWebSocketMessage_def)
  have written: "\<exists>s'. handleFileTransfer J userId fd nid now s = Inr s'
           \<and> step J s (WsMessage w userId (InFile fd) nid now) = s'
           \<and> received s' (path_join ''received'' (filename fd)) = Some (base64_decode (fileData fd))
           \<and> chatLog s' =
               chatLog s @ [\<lparr>m_id = nid, m_username = u_username u,
                             m_message = fileNoticeText J fd, m_timestamp = now,
                             m_type = TFile\<rparr>]
           \<and> sent s' =
               sent s @
               fanout (OutMessage \<lparr>m_id = nid, m_username = u_username u,
                         m_message = fileNoticeText J fd, m_timestamp = now, m_type = TFile\<rparr>)
                 (users s) (readyState s) @
               fanout (OutFileReceived
                         \<lparr>fn_filename = filename fd, fn_fileData = fileData fd,
                          fn_sender = u_username u, fn_fileSize = fileSize fd,
                          fn_downloadUrl = ''/api/download/'' @ filename fd\<rparr>)
                 (filter (\<lambda>(k, v). k \<noteq> userId) (users s)) (readyState s)"
    if "map_of (users s) userId = Some u" "writable s (path_join ''received'' (filename fd))"
  proof -
    from handleFileTransfer_fields [OF that, of J nid now]
    obtain s' where ok: "handleFileTransfer J userId fd nid now s = Inr s'"
      and f: "received s' = (received s)(path_join ''received'' (filename fd) \<mapsto> base64_decode (fileData fd))"
        "chatLog s' =
           chatLog s @ [\<lparr>m_id = nid, m_username = u_username u,
                         m_message = fileNoticeText J fd, m_timestamp = now, m_type = TFile\<rparr>]"
        "sent s' =
           sent s @
           fanout (OutMessage \<lparr>m_id = nid, m_username = u_username u,
                     m_message = fileNoticeText J fd, m_timestamp = now, m_type = TFile\<rparr>)
             (users s) (readyState s) @
           fanout (OutFileReceived
                     \<lparr>fn_filename = filename fd, fn_fileData = fileData fd,
                      fn_sender = u_username u, fn_fileSize = fileSize fd,
                      fn_downloadUrl = ''/api/download/'' @ filename fd\<rparr>)
             (filter (\<lambda>(k, v). k \<noteq> userId) (users s)) (readyState s)"
      by blast
    from ok have "step J s (WsMessage w userId (InFile fd) nid now) = s'"
      by (rule file_frame_handled)
    with ok f show ?thesis by simp
  qed
  have failed: "handleFileTransfer J userId fd nid now s = Inl (WriteFailed (path_join ''received'' (filename fd)))
        \<and> step J s (WsMessage w userId (InFile fd) nid now) = s"
    if "map_of (users s) userId = Some u" "\<not> writable s (path_join ''received'' (filename fd))"
  proof -
    have e: "handleFileTransfer J userId fd nid now s = Inl (WriteFailed (path_join ''received'' (filename fd)))"
      using that by (rule handleFileTransfer_failed)
    then have "step J s (WsMessage w userId (InFile fd) nid now) = s"
      by (rule file_frame_dropped)
    with e show ?thesis by blast
  qed
  from unknown written failed decode_stops_at_pad [of c xs ys]
    decode_skips_illegal [of c xs ys]
  show ?thesis by blast
qed

theorem C2_unknown_sender_noop_any_content_written_witness:
  "map_of (users (initial :: 10 word hub)) ''c9'' = None
   \<and> step below_1024 initial
        (WsMessage 9 ''c9''
           (InFile \<lparr>filename = ''p.bin'', fileData = js ''AP8Q'', fileSize = 3, sender = ''Z''\<rparr>)
           ''n2'' ''t2'') = initial
   \<and> map_of (users (handleUserJoin 1 ''c1'' ''A'' ''n1'' ''t1'' (initial :: 10 word hub))) ''c1'' =
       Some \<lparr>u_id = ''c1'', u_username = ''A'', u_ws = 1\<rparr>
   \<and> path_join ''received'' ''p.bin'' = ''received/p.bin''
   \<and> writable (handleUserJoin 1 ''c1'' ''A'' ''n1'' ''t1'' (initial :: 10 word hub))
        ''received/p.bin''
   \<and> received
        (step below_1024 (handleUserJoin 1 ''c1'' ''A'' ''n1'' ''t1'' initial)
           (WsMessage 1 ''c1''
              (InFile \<lparr>filename = ''p.bin'', fileData = js ''AP8Q'', fileSize = 3,
                 sender = ''A''\<rparr>)
              ''n2'' ''t2''))
        ''received/p.bin'' = Some [0x00, 0xFF, 0x10]
   \<and> path_join ''received'' [] = ''received''
   \<and> \<not> writable (handleUserJoin 1 ''c1'' ''A'' ''n1'' ''t1'' (initial :: 10 word hub))
        ''received''
   \<and> step below_1024 (handleUserJoin 1 ''c1'' ''A'' ''n1'' ''t1'' initial)
        (WsMessage 1 ''c1''
           (InFile \<lparr>filename = [], fileData = js ''AP8Q'', fileSize = 3, sender = ''A''\<rparr>)
           ''n2'' ''t2'') =
      handleUserJoin 1 ''c1'' ''A'' ''n1'' ''t1'' initial
   \<and> low8 0x3D = 0x3D
   \<and> base64_decode (js ''AP8Q'' @ 0x3D # js ''AP8Q'') = [0x00, 0xFF, 0x10]
   \<and> \<not> unbase64 (low8 0x21) < 64
   \<and> base64_decode (js ''AP'' @ 0x21 # js ''8Q'') = [0x00, 0xFF, 0x10]"
proof -
  let ?s = "handleUserJoin 1 ''c1'' ''A'' ''n1'' ''t1'' (initial :: 10 word hub)"
  have h0: "map_of (users (initial :: 10 word hub)) ''c9'' = None"
    by (simp add: initial_def)
  have h: "map_of (users ?s) ''c1'' = Some \<lparr>u_id = ''c1'', u_username = ''A'', u_ws = 1\<rparr>"
    by (simp add: users_handleUserJoin initial_def)
  have pj: "path_join ''received'' ''p.bin'' = ''received/p.bin''"
    "path_join ''received'' [] = ''received''"
    by (simp_all add: path_join_received path_join_received_empty plain_name_def)
  have wr: "writable ?s ''received/p.bin''" "\<not> writable ?s ''received''"
    by (simp_all add: handleUserJoin_fields initial_def in_received_def plain_name_def)
  have l: "low8 0x3D = 0x3D" "low8 0x21 = 0x21"
    by (simp_all add: low8_def)
  have cat: "js ''AP'' @ js ''8Q'' = js ''AP8Q''"
    by (simp add: js_def)
  note a = C2_unknown_sender_noop_any_content_written [of initial "''c9''" below_1024
        "\<lparr>filename = ''p.bin'', fileData = js ''AP8Q'', fileSize = 3, sender = ''Z''\<rparr>"
        "''n2''" "''t2''" 9 _ "0x3D" "js ''AP8Q''" "js ''AP8Q''"]
  note b = C2_unknown_sender_noop_any_content_written [of ?s "''c1''" below_1024
        "\<lparr>filename = ''p.bin'', fileData = js ''AP8Q'', fileSize = 3, sender = ''A''\<rparr>"
        "''n2''" "''t2''" 1 "\<lparr>u_id = ''c1'', u_username = ''A'', u_ws = 1\<rparr>"
        "0x21" "js ''AP''" "js ''8Q''"]
  note c = C2_unknown_sender_noop_any_content_written [of ?s "''c1''" below_1024
        "\<lparr>filename = [], fileData = js ''AP8Q'', fileSize = 3, sender = ''A''\<rparr>"
        "''n2''" "''t2''" 1 "\<lparr>u_id = ''c1'', u_username = ''A'', u_ws = 1\<rparr>"]
  from a h0 have 1: "step below_1024 initial
        (WsMessage 9 ''c9''
           (InFile \<lparr>filename = ''p.bin'', fileData = js ''AP8Q'', fileSize = 3, sender = ''Z''\<rparr>)
           ''n2'' ''t2'') = initial"
    by blast
  from a l have 2: "base64_decode (js ''AP8Q'' @ 0x3D # js ''AP8Q'') = [0x00, 0xFF, 0x10]"
    by (simp add: decode_three)
  from b h wr pj have 3: "received
        (step below_1024 ?s
           (WsMessage 1 ''c1''
              (InFile \<lparr>filename = ''p.bin'', fileData = js ''AP8Q'', fileSize = 3,
                 sender = ''A''\<rparr>)
              ''n2'' ''t2''))
        ''received/p.bin'' = Some [0x00, 0xFF, 0x10]"
    by (auto simp add: decode_three simp del: One_nat_def)
  have 4: "\<not> unbase64 (low8 0x21) < 64"
    by (simp add: l unbase64_bang)
  with b l have 5: "base64_decode (js ''AP'' @ 0x21 # js ''8Q'') = [0x00, 0xFF, 0x10]"
    by (simp add: cat decode_three)
  from c h wr pj have 6: "step below_1024 ?s
        (WsMessage 1 ''c1''
           (InFile \<lparr>filename = [], fileData = js ''AP8Q'', fileSize = 3, sender = ''A''\<rparr>)
           ''n2'' ''t2'') = ?s"
    by (simp del: One_nat_def)
  from h0 h wr pj l 1 2 3 4 5 6 show ?thesis by simp
qed

text \<open>
  C3. After N calls of \<open>broadcastMessage\<close> the log \<open>chatLog\<close> (what \<open>history()\<close>, that is
  \<open>GET /api/chat-history\<close>, returns) holds the N events in the order of the calls, so on
  the hub as constructed it has length N. One call appends the event to the log first and
  then hands the message to \<open>send\<close> once for every registered participant whose socket is
  \<open>OPEN\<close>: the fan-out runs on the state whose log already ends with the event.
\<close>

theorem C3_history_after_publish:
  "chatLog (publishAll ms s) = chatLog s @ ms
   \<and> chatLog (publishAll ms initial) = ms
   \<and> length (chatLog (publishAll ms initial)) = length ms
   \<and> broadcastMessage m s =
       saveChatLog (broadcast (OutMessage m) (s\<lparr>chatLog := chatLog s @ [m]\<rparr>))
   \<and> chatLog (broadcastMessage m s) = chatLog s @ [m]
   \<and> sent (broadcastMessage m s) =
       sent s @ map (\<lambda>(k, u). (u_ws u, OutMessage m))
                    (filter (\<lambda>(k, u). readyState s (u_ws u) = OPEN) (users s))"
  by (simp add: publishAll_chatLog initial_def fanout_def) (simp add: broadcastMessage_def)

text \<open>
  C4. A connection on which no \<open>join\<close> frame has arrived is not in \<open>users\<close>, and a
  \<open>message\<close> or \<open>file\<close> frame on it leaves the whole hub as it was: nothing is logged,
  sent or stored.
\<close>

theorem C4_unjoined_dispatch_noop:
  assumes "map_of (users s) userId = None"
    and "\<not> list_ex (is_join_of userId) evs"
  shows "run J s (evs @ [WsMessage w userId (InMessage text) nid now]) = run J s evs
       \<and> run J s (evs @ [WsMessage w userId (InFile fd) nid now]) = run J s evs"
proof -
  from assms have "map_of (users (run J s evs)) userId = None"
    by (rule absent_run)
  then show ?thesis
    by (simp add: run_snoc handleWebSocketMessage_def unjoined_noop)
qed

theorem C4_unjoined_dispatch_noop_witness:
  "map_of (users (initial :: 10 word hub)) ''c2'' = None
   \<and> \<not> list_ex (is_join_of ''c2'')
         [WsMessage 1 ''c1'' (InJoin ''A'') ''n1'' ''t1'' :: 10 word event]
   \<and> run below_1024 initial ([WsMessage 1 ''c1'' (InJoin ''A'') ''n1'' ''t1''] @
          [WsMessage 2 ''c2'' (InMessage ''hi'') ''n2'' ''t2'']) =
       run below_1024 initial [WsMessage 1 ''c1'' (InJoin ''A'') ''n1'' ''t1'']
   \<and> run below_1024 initial ([WsMessage 1 ''c1'' (InJoin ''A'') ''n1'' ''t1''] @
          [WsMessage 2 ''c2'' (InFile \<lparr>filename = ''f'', fileData = js ''QQ=='', fileSize = 1,
             sender = ''x''\<rparr>) ''n2'' ''t2'']) =
       run below_1024 initial [WsMessage 1 ''c1'' (InJoin ''A'') ''n1'' ''t1'']"
proof -
  have h1: "map_of (users (initial :: 10 word hub)) ''c2'' = None"
    by (simp add: initial_def)
  have h2: "\<not> list_ex (is_join_of ''c2'')
      [WsMessage 1 ''c1'' (InJoin ''A'') ''n1'' ''t1'' :: 10 word event]"
    by simp
  show ?thesis
    using h1 h2 C4_unjoined_dispatch_noop [OF h1 h2, of below_1024] by simp
qed

text \<open>
  C5. A \<open>join\<close> registers the participant, publishes the system event
  \<open><name> joined the chat\<close> to every \<open>OPEN\<close> socket, then sends one \<open>joined\<close> snapshot,
  to the joining socket only, holding the log (the new event included) and the names of
  all registered participants, and last broadcasts the user list. A participant who was
  registered before on another connection is therefore named in the snapshot.
\<close>

theorem C5_join_sequence:
  "chatLog (handleUserJoin w userId username nid now s) =
     chatLog s @ [systemMessage nid now (username @ '' joined the chat'')]
   \<and> sent (handleUserJoin w userId username nid now s) =
     sent s @
     fanout (OutMessage (systemMessage nid now (username @ '' joined the chat'')))
       (users (handleUserJoin w userId username nid now s)) (readyState s) @
     [(w, OutJoined (chatLog s @ [systemMessage nid now (username @ '' joined the chat'')])
            (userList (handleUserJoin w userId username nid now s)))] @
     fanout (OutUserList (userList (handleUserJoin w userId username nid now s)))
       (users (handleUserJoin w userId username nid now s)) (readyState s)
   \<and> users (handleUserJoin w userId username nid now s) =
     AList.update userId \<lparr>u_id = userId, u_username = username, u_ws = w\<rparr> (users s)
   \<and> username \<in> set (userList (handleUserJoin w userId username nid now s))
   \<and> (\<forall>k a. (k, a) \<in> set (users s) \<and> k \<noteq> userId \<longrightarrow>
         u_username a \<in> set (userList (handleUserJoin w userId username nid now s)))"
proof -
  let ?u = "\<lparr>u_id = userId, u_username = username, u_ws = w\<rparr>"
  have own: "(userId, ?u) \<in> set (AList.update userId ?u (users s))"
    by (rule update_has_own)
  have "username \<in> (\<lambda>(k, u). u_username u) ` set (AList.update userId ?u (users s))"
    using own by force
  moreover have "u_username a \<in> (\<lambda>(k, u). u_username u) ` set (AList.update userId ?u (users s))"
    if "(k, a) \<in> set (users s)" "k \<noteq> userId" for k a
    using update_keeps_others [OF that] by force
  ultimately show ?thesis
    by (simp add: handleUserJoin_fields users_handleUserJoin userList_def) blast
qed

theorem C5_join_sequence_witness:
  "(''c1'', \<lparr>u_id = ''c1'', u_username = ''A'', u_ws = 1\<rparr>)
     \<in> set (users (handleUserJoin 1 ''c1'' ''A'' ''n1'' ''t1'' initial))
   \<and> ''c1'' \<noteq> ''c2''
   \<and> sent (handleUserJoin 2 ''c2'' ''B'' ''n2'' ''t2''
        (handleUserJoin 1 ''c1'' ''A'' ''n1'' ''t1'' initial)) =
      sent (handleUserJoin 1 ''c1'' ''A'' ''n1'' ''t1'' initial) @
      [(1, OutMessage (systemMessage ''n2'' ''t2'' ''B joined the chat'')),
       (2, OutMessage (systemMessage ''n2'' ''t2'' ''B joined the chat'')),
       (2, OutJoined [systemMessage ''n1'' ''t1'' ''A joined the chat'',
                      systemMessage ''n2'' ''t2'' ''B joined the chat''] [''A'', ''B'']),
       (1, OutUserList [''A'', ''B'']),
       (2, OutUserList [''A'', ''B''])]
   \<and> ''A'' \<in> set (userList (handleUserJoin 2 ''c2'' ''B'' ''n2'' ''t2''
        (handleUserJoin 1 ''c1'' ''A'' ''n1'' ''t1'' initial)))"
  using C5_join_sequence [of 2 "''c2''" "''B''" "''n2''" "''t2''"
      "handleUserJoin 1 ''c1'' ''A'' ''n1'' ''t1'' initial"]
  by (simp add: handleUserJoin_fields users_handleUserJoin userList_def fanout_def initial_def)

text \<open>
  C6 fails on the code where it says that \<open>list()\<close> excludes the name. Names are not
  unique: when two participants have joined as Alice and the transport of the first one
  closes, \<open>list()\<close> still holds the name Alice.
\<close>

theorem C6_same_name_counterexample:
  "map_of (users (run below_1024 initial
       [WsMessage 1 ''c1'' (InJoin ''Alice'') ''n1'' ''t1'',
        WsMessage 2 ''c2'' (InJoin ''Alice'') ''n2'' ''t2''])) ''c1'' =
     Some \<lparr>u_id = ''c1'', u_username = ''Alice'', u_ws = 1\<rparr>
   \<and> userList (run below_1024 initial
       [WsMessage 1 ''c1'' (InJoin ''Alice'') ''n1'' ''t1'',
        WsMessage 2 ''c2'' (InJoin ''Alice'') ''n2'' ''t2'',
        WsClose ''c1'' ''n3'' ''t3'']) = [''Alice'']
   \<and> ''Alice'' \<in> set (userList (run below_1024 initial
       [WsMessage 1 ''c1'' (InJoin ''Alice'') ''n1'' ''t1'',
        WsMessage 2 ''c2'' (InJoin ''Alice'') ''n2'' ''t2'',
        WsClose ''c1'' ''n3'' ''t3'']))"
  by (simp add: run_def handleWebSocketMessage_def users_handleUserJoin initial_def
      userList_def handleUserDisconnect_def Let_def)

text \<open>
  C6, as the code has it. The close of a registered participant's transport appends one
  system event \<open><name> left the chat\<close>, sends it to every \<open>OPEN\<close> socket, removes the
  participant's entry and broadcasts the remaining names. \<open>list()\<close> afterwards is the
  earlier list without that entry: the name is gone from it when no other participant
  carries the same name. A second close for the same identifier changes nothing.
\<close>

theorem C6_disconnect_once:
  assumes "map_of (users s) userId = Some u"
  shows "chatLog (handleUserDisconnect userId nid now s) =
           chatLog s @ [\<lparr>m_id = nid, m_username = ''System'',
                         m_message = u_username u @ '' left the chat'',
                         m_timestamp = now, m_type = TSystem\<rparr>]
       \<and> sent (handleUserDisconnect userId nid now s) =
           sent s @
           fanout (OutMessage \<lparr>m_id = nid, m_username = ''System'',
                      m_message = u_username u @ '' left the chat'',
                      m_timestamp = now, m_type = TSystem\<rparr>)
             (users s) (readyState s) @
           fanout (OutUserList (userList (handleUserDisconnect userId nid now s)))
             (users (handleUserDisconnect userId nid now s)) (readyState s)
       \<and> map_of (users (handleUserDisconnect userId nid now s)) userId = None
       \<and> userList (handleUserDisconnect userId nid now s) =
           map (\<lambda>(k, v). u_username v) (filter (\<lambda>(k, v). k \<noteq> userId) (users s))
       \<and> ((\<forall>(k, v) \<in> set (users s). k \<noteq> userId \<longrightarrow> u_username v \<noteq> u_username u) \<longrightarrow>
            u_username u \<notin> set (userList (handleUserDisconnect userId nid now s)))
       \<and> handleUserDisconnect userId nid' now' (handleUserDisconnect userId nid now s) =
           handleUserDisconnect userId nid now s"
proof -
  let ?s' = "handleUserDisconnect userId nid now s"
  note f = handleUserDisconnect_fields [OF assms, of nid now]
  have gone: "map_of (users ?s') userId = None"
    by (simp add: f delete_conv')
  have names: "userList ?s' =
      map (\<lambda>(k, v). u_username v) (filter (\<lambda>(k, v). k \<noteq> userId) (users s))"
    by (simp add: userList_def f delete_as_filter)
  have excluded: "(\<forall>(k, v) \<in> set (users s). k \<noteq> userId \<longrightarrow> u_username v \<noteq> u_username u) \<longrightarrow>
      u_username u \<notin> set (userList ?s')"
    by (auto simp add: names)
  have again: "handleUserDisconnect userId nid' now' ?s' = ?s'"
    using gone by (rule handleUserDisconnect_absent)
  show ?thesis
    using gone names excluded again
    by (simp add: f systemMessage_def userList_def)
qed

theorem C6_disconnect_once_witness:
  "map_of (users (run below_1024 initial
       [WsMessage 1 ''c1'' (InJoin ''Alice'') ''n1'' ''t1'',
        WsMessage 2 ''c2'' (InJoin ''Bob'') ''n2'' ''t2''])) ''c1'' =
     Some \<lparr>u_id = ''c1'', u_username = ''Alice'', u_ws = 1\<rparr>
   \<and> chatLog (handleUserDisconnect ''c1'' ''n3'' ''t3'' (run below_1024 initial
       [WsMessage 1 ''c1'' (InJoin ''Alice'') ''n1'' ''t1'',
        WsMessage 2 ''c2'' (InJoin ''Bob'') ''n2'' ''t2''])) =
     [systemMessage ''n1'' ''t1'' ''Alice joined the chat'',
      systemMessage ''n2'' ''t2'' ''Bob joined the chat'',
      systemMessage ''n3'' ''t3'' ''Alice left the chat'']
   \<and> userList (handleUserDisconnect ''c1'' ''n3'' ''t3'' (run below_1024 initial
       [WsMessage 1 ''c1'' (InJoin ''Alice'') ''n1'' ''t1'',
        WsMessage 2 ''c2'' (InJoin ''Bob'') ''n2'' ''t2''])) = [''Bob'']
   \<and> ''Alice'' \<notin> set (userList (handleUserDisconnect ''c1'' ''n3'' ''t3'' (run below_1024 initial
       [WsMessage 1 ''c1'' (InJoin ''Alice'') ''n1'' ''t1'',
        WsMessage 2 ''c2'' (InJoin ''Bob'') ''n2'' ''t2''])))
   \<and> handleUserDisconnect ''c1'' ''n4'' ''t4''
        (handleUserDisconnect ''c1'' ''n3'' ''t3'' (run below_1024 initial
          [WsMessage 1 ''c1'' (InJoin ''Alice'') ''n1'' ''t1'',
           WsMessage 2 ''c2'' (InJoin ''Bob'') ''n2'' ''t2''])) =
      handleUserDisconnect ''c1'' ''n3'' ''t3'' (run below_1024 initial
          [WsMessage 1 ''c1'' (InJoin ''Alice'') ''n1'' ''t1'',
           WsMessage 2 ''c2'' (InJoin ''Bob'') ''n2'' ''t2''])"
proof -
  let ?s = "run below_1024 initial
       [WsMessage 1 ''c1'' (InJoin ''Alice'') ''n1'' ''t1'',
        WsMessage 2 ''c2'' (InJoin ''Bob'') ''n2'' ''t2'']"
  have us: "users ?s = [(''c1'', \<lparr>u_id = ''c1'', u_username = ''Alice'', u_ws = 1\<rparr>),
                        (''c2'', \<lparr>u_id = ''c2'', u_username = ''Bob'', u_ws = 2\<rparr>)]"
    by (simp add: run_def handleWebSocketMessage_def users_handleUserJoin initial_def)
  have cl: "chatLog ?s = [systemMessage ''n1'' ''t1'' ''Alice joined the chat'',
                          systemMessage ''n2'' ''t2'' ''Bob joined the chat'']"
    by (simp add: run_def handleWebSocketMessage_def handleUserJoin_fields initial_def)
  have h: "map_of (users ?s) ''c1'' = Some \<lparr>u_id = ''c1'', u_username = ''Alice'', u_ws = 1\<rparr>"
    by (simp only: us) simp
  from C6_disconnect_once [OF h, of "''n3''" "''t3''" "''n4''" "''t4''"]
  show ?thesis
    using h by (simp add: us cl systemMessage_def del: One_nat_def)
qed

text \<open>
  C7. A file transfer that succeeds, from a registered sender and with a file that can
  be written, writes the decoded bytes under the given file name, so content that
  encodes some bytes is stored as exactly those bytes. After the file notice has gone to
  every \<open>OPEN\<close> socket, the \<open>file_received\<close> notification goes once to each registered
  participant other than the sender whose socket is \<open>OPEN\<close>, and, no other participant
  holding the sender's socket (as \<open>sockets_apart\<close> shows of the runs of the server),
  never to the sender's.
\<close>

theorem C7_file_stored_and_relayed:
  assumes "map_of (users s) userId = Some u"
    and "writable s (path_join ''received'' (filename fd))"
  shows "\<exists>s'. handleFileTransfer J userId fd nid now s = Inr s'
       \<and> step J s (WsMessage w userId (InFile fd) nid now) = s'
       \<and> received s' (path_join ''received'' (filename fd)) =
           Some (base64_decode (fileData fd))
       \<and> (\<forall>bs. fileData fd = base64_encode bs \<longrightarrow>
             received s' (path_join ''received'' (filename fd)) = Some bs)
       \<and> sent s' =
           sent s @
           fanout (OutMessage \<lparr>m_id = nid, m_username = u_username u,
                     m_message = fileNoticeText J fd, m_timestamp = now, m_type = TFile\<rparr>)
             (users s) (readyState s) @
           fanout (OutFileReceived
                     \<lparr>fn_filename = filename fd, fn_fileData = fileData fd,
                      fn_sender = u_username u, fn_fileSize = fileSize fd,
                      fn_downloadUrl = ''/api/download/'' @ filename fd\<rparr>)
             (filter (\<lambda>(k, v). k \<noteq> userId) (users s)) (readyState s)
       \<and> (\<forall>(k, v) \<in> set (users s).
             k \<noteq> userId \<and> readyState s (u_ws v) = OPEN \<longrightarrow>
             (u_ws v, OutFileReceived
                \<lparr>fn_filename = filename fd, fn_fileData = fileData fd,
                 fn_sender = u_username u, fn_fileSize = fileSize fd,
                 fn_downloadUrl = ''/api/download/'' @ filename fd\<rparr>)
               \<in> set (sent s'))
       \<and> ((\<forall>(k, v) \<in> set (users s). k \<noteq> userId \<longrightarrow> u_ws v \<noteq> u_ws u) \<longrightarrow>
            (\<forall>n. (u_ws u, OutFileReceived n) \<notin> set (drop (length (sent s)) (sent s'))))"
proof -
  let ?notice = "OutFileReceived
                     \<lparr>fn_filename = filename fd, fn_fileData = fileData fd,
                      fn_sender = u_username u, fn_fileSize = fileSize fd,
                      fn_downloadUrl = ''/api/download/'' @ filename fd\<rparr>"
  let ?msg = "OutMessage \<lparr>m_id = nid, m_username = u_username u,
                     m_message = fileNoticeText J fd, m_timestamp = now, m_type = TFile\<rparr>"
  let ?others = "filter (\<lambda>(k, v). k \<noteq> userId) (users s)"
  from handleFileTransfer_fields [OF assms, of J nid now]
  obtain s' where ok: "handleFileTransfer J userId fd nid now s = Inr s'"
    and rc: "received s' =
      (received s)(path_join ''received'' (filename fd) \<mapsto> base64_decode (fileData fd))"
    and c3: "sent s' =
      sent s @ fanout ?msg (users s) (readyState s) @ fanout ?notice ?others (readyState s)"
    by blast
  from ok have st: "step J s (WsMessage w userId (InFile fd) nid now) = s'"
    by (rule file_frame_handled)
  have c1: "received s' (path_join ''received'' (filename fd)) =
      Some (base64_decode (fileData fd))"
    by (simp add: rc)
  have c2: "\<forall>bs. fileData fd = base64_encode bs \<longrightarrow>
      received s' (path_join ''received'' (filename fd)) = Some bs"
    by (simp add: rc base64_roundtrip)
  have c4: "\<forall>(k, v) \<in> set (users s).
      k \<noteq> userId \<and> readyState s (u_ws v) = OPEN \<longrightarrow> (u_ws v, ?notice) \<in> set (sent s')"
  proof (clarify)
    fix k v
    assume "(k, v) \<in> set (users s)" "k \<noteq> userId" "readyState s (u_ws v) = OPEN"
    then have "(u_ws v, ?notice) \<in> set (fanout ?notice ?others (readyState s))"
      by (intro fanout_reaches [of k]) simp_all
    then show "(u_ws v, ?notice) \<in> set (sent s')"
      by (simp only: c3 set_append Un_iff) blast
  qed
  have c5: "(\<forall>(k, v) \<in> set (users s). k \<noteq> userId \<longrightarrow> u_ws v \<noteq> u_ws u) \<longrightarrow>
      (\<forall>n. (u_ws u, OutFileReceived n) \<notin> set (drop (length (sent s)) (sent s')))"
  proof (intro impI allI notI)
    fix n
    assume apart: "\<forall>(k, v) \<in> set (users s). k \<noteq> userId \<longrightarrow> u_ws v \<noteq> u_ws u"
      and "(u_ws u, OutFileReceived n) \<in> set (drop (length (sent s)) (sent s'))"
    then have "(u_ws u, OutFileReceived n) \<in> set (fanout ?msg (users s) (readyState s))
             \<or> (u_ws u, OutFileReceived n) \<in> set (fanout ?notice ?others (readyState s))"
      by (simp add: c3)
    then show False
    proof
      assume "(u_ws u, OutFileReceived n) \<in> set (fanout ?msg (users s) (readyState s))"
      then show False by (auto dest!: fanout_target)
    next
      assume "(u_ws u, OutFileReceived n) \<in> set (fanout ?notice ?others (readyState s))"
      then obtain k v where "(k, v) \<in> set ?others" "u_ws v = u_ws u"
        by (auto dest!: fanout_target)
      with apart show False by auto
    qed
  qed
  from ok st c1 c2 c3 c4 c5 show ?thesis by blast
qed

theorem C7_file_stored_and_relayed_witness:
  "map_of (users (handleUserJoin 2 ''c2'' ''B'' ''n2'' ''t2''
       (handleUserJoin 1 ''c1'' ''A'' ''n1'' ''t1'' (initial :: 10 word hub)))) ''c1'' =
     Some \<lparr>u_id = ''c1'', u_username = ''A'', u_ws = 1\<rparr>
   \<and> path_join ''received'' ''report.pdf'' = ''received/report.pdf''
   \<and> writable (handleUserJoin 2 ''c2'' ''B'' ''n2'' ''t2''
       (handleUserJoin 1 ''c1'' ''A'' ''n1'' ''t1'' (initial :: 10 word hub)))
       ''received/report.pdf''
   \<and> received
        (step below_1024
           (handleUserJoin 2 ''c2'' ''B'' ''n2'' ''t2''
              (handleUserJoin 1 ''c1'' ''A'' ''n1'' ''t1'' initial))
           (WsMessage 1 ''c1''
              (InFile \<lparr>filename = ''report.pdf'', fileData = js ''AQIDBAUGBwgJCg=='',
                 fileSize = 10, sender = ''A''\<rparr>) ''n3'' ''t3''))
        ''received/report.pdf'' = Some [1, 2, 3, 4, 5, 6, 7, 8, 9, 10]
   \<and> drop (length (sent (handleUserJoin 2 ''c2'' ''B'' ''n2'' ''t2''
              (handleUserJoin 1 ''c1'' ''A'' ''n1'' ''t1'' (initial :: 10 word hub)))))
        (sent (step below_1024
           (handleUserJoin 2 ''c2'' ''B'' ''n2'' ''t2''
              (handleUserJoin 1 ''c1'' ''A'' ''n1'' ''t1'' initial))
           (WsMessage 1 ''c1''
              (InFile \<lparr>filename = ''report.pdf'', fileData = js ''AQIDBAUGBwgJCg=='',
                 fileSize = 10, sender = ''A''\<rparr>) ''n3'' ''t3''))) =
      [(1, OutMessage \<lparr>m_id = ''n3'', m_username = ''A'',
             m_message = fileNoticeText below_1024 \<lparr>filename = ''report.pdf'',
                fileData = js ''AQIDBAUGBwgJCg=='', fileSize = 10, sender = ''A''\<rparr>,
             m_timestamp = ''t3'', m_type = TFile\<rparr>),
       (2, OutMessage \<lparr>m_id = ''n3'', m_username = ''A'',
             m_message = fileNoticeText below_1024 \<lparr>filename = ''report.pdf'',
                fileData = js ''AQIDBAUGBwgJCg=='', fileSize = 10, sender = ''A''\<rparr>,
             m_timestamp = ''t3'', m_type = TFile\<rparr>),
       (2, OutFileReceived
             \<lparr>fn_filename = ''report.pdf'', fn_fileData = js ''AQIDBAUGBwgJCg=='',
              fn_sender = ''A'', fn_fileSize = 10,
              fn_downloadUrl = ''/api/download/report.pdf''\<rparr>)]
   \<and> fileNoticeText below_1024 \<lparr>filename = ''report.pdf'',
        fileData = js ''AQIDBAUGBwgJCg=='', fileSize = 10, sender = ''A''\<rparr> =
      paperclip @ '' Shared file: report.pdf (10 B)''"
proof -
  let ?s = "handleUserJoin 2 ''c2'' ''B'' ''n2'' ''t2''
       (handleUserJoin 1 ''c1'' ''A'' ''n1'' ''t1'' (initial :: 10 word hub))"
  let ?fd = "\<lparr>filename = ''report.pdf'', fileData = js ''AQIDBAUGBwgJCg=='',
               fileSize = 10 :: 10 word, sender = ''A''\<rparr>"
  have h: "map_of (users ?s) ''c1'' = Some \<lparr>u_id = ''c1'', u_username = ''A'', u_ws = 1\<rparr>"
    by (simp add: users_handleUserJoin initial_def)
  have pj: "path_join ''received'' ''report.pdf'' = ''received/report.pdf''"
    by (simp add: path_join_received plain_name_def)
  have wr: "writable ?s (path_join ''received'' (filename ?fd))"
    by (simp add: handleUserJoin_fields initial_def in_received_plain plain_name_def)
  have wr': "writable ?s ''received/report.pdf''"
    using wr by (simp add: pj)
  have us: "users ?s = [(''c1'', \<lparr>u_id = ''c1'', u_username = ''A'', u_ws = 1\<rparr>),
                        (''c2'', \<lparr>u_id = ''c2'', u_username = ''B'', u_ws = 2\<rparr>)]"
    by (simp add: users_handleUserJoin initial_def)
  have rs: "readyState ?s = (\<lambda>w. OPEN)"
    by (simp add: handleUserJoin_fields initial_def)
  have ntext: "fileNoticeText below_1024 ?fd = paperclip @ '' Shared file: report.pdf (10 B)''"
    by (simp add: fileNoticeText_def formatFileSize_below_1024)
  from C7_file_stored_and_relayed [OF h wr, of below_1024 "''n3''" "''t3''" 1]
  obtain s' where st: "step below_1024 ?s (WsMessage 1 ''c1'' (InFile ?fd) ''n3'' ''t3'') = s'"
    and rc: "received s' (path_join ''received'' (filename ?fd)) =
      Some (base64_decode (fileData ?fd))"
    and sn: "sent s' =
           sent ?s @
           fanout (OutMessage \<lparr>m_id = ''n3'', m_username = u_username \<lparr>u_id = ''c1'',
                       u_username = ''A'', u_ws = 1\<rparr>,
                     m_message = fileNoticeText below_1024 ?fd, m_timestamp = ''t3'',
                     m_type = TFile\<rparr>)
             (users ?s) (readyState ?s) @
           fanout (OutFileReceived
                     \<lparr>fn_filename = filename ?fd, fn_fileData = fileData ?fd,
                      fn_sender = u_username \<lparr>u_id = ''c1'', u_username = ''A'', u_ws = 1\<rparr>,
                      fn_fileSize = fileSize ?fd,
                      fn_downloadUrl = ''/api/download/'' @ filename ?fd\<rparr>)
             (filter (\<lambda>(k, v). k \<noteq> ''c1'') (users ?s)) (readyState ?s)"
    by blast
  have r: "received s' ''received/report.pdf'' = Some [1, 2, 3, 4, 5, 6, 7, 8, 9, 10]"
    using rc by (simp add: decode_ten pj)
  have d: "drop (length (sent ?s)) (sent s') =
      [(1, OutMessage \<lparr>m_id = ''n3'', m_username = ''A'',
             m_message = fileNoticeText below_1024 ?fd,
             m_timestamp = ''t3'', m_type = TFile\<rparr>),
       (2, OutMessage \<lparr>m_id = ''n3'', m_username = ''A'',
             m_message = fileNoticeText below_1024 ?fd,
             m_timestamp = ''t3'', m_type = TFile\<rparr>),
       (2, OutFileReceived
             \<lparr>fn_filename = ''report.pdf'', fn_fileData = js ''AQIDBAUGBwgJCg=='',
              fn_sender = ''A'', fn_fileSize = 10,
              fn_downloadUrl = ''/api/download/report.pdf''\<rparr>)]"
    by (simp add: sn us rs fanout_def del: One_nat_def)
  show ?thesis
    unfolding st
    using h pj wr' r d ntext by (simp del: One_nat_def)
qed

text \<open>
  C8. What the command-line client encodes, the server's \<open>handleFileTransfer\<close> decodes to
  the same bytes: \<open>base64_decode\<close> undoes \<open>base64_encode\<close> on every byte sequence, and
  the file a registered sender transfers, where it can be written, holds the bytes that
  were encoded.
\<close>

theorem C8_file_relay_roundtrip:
  "base64_decode (base64_encode bs) = bs
   \<and> (map_of (users s) userId = Some u
        \<and> writable s (path_join ''received'' (filename fd)) \<longrightarrow>
        (\<exists>s'. handleFileTransfer J userId (fd\<lparr>fileData := base64_encode bs\<rparr>) nid now s =
                 Inr s'
           \<and> received s' (path_join ''received'' (filename fd)) = Some bs))"
proof -
  have "\<exists>s'. handleFileTransfer J userId (fd\<lparr>fileData := base64_encode bs\<rparr>) nid now s = Inr s'
           \<and> received s' (path_join ''received'' (filename fd)) = Some bs"
    if "map_of (users s) userId = Some u" "writable s (path_join ''received'' (filename fd))"
    using handleFileTransfer_fields [of s userId u "fd\<lparr>fileData := base64_encode bs\<rparr>" J nid now]
      that
    by (auto simp add: base64_roundtrip)
  then show ?thesis
    by (simp add: base64_roundtrip)
qed

theorem C8_file_relay_roundtrip_witness:
  "base64_encode [0x00, 0xFF, 0x10] = js ''AP8Q''
   \<and> base64_decode (js ''AP8Q'') = [0x00, 0xFF, 0x10]
   \<and> map_of (users (handleUserJoin 1 ''c1'' ''A'' ''n1'' ''t1'' (initial :: 10 word hub))) ''c1'' =
       Some \<lparr>u_id = ''c1'', u_username = ''A'', u_ws = 1\<rparr>
   \<and> path_join ''received'' ''p.bin'' = ''received/p.bin''
   \<and> writable (handleUserJoin 1 ''c1'' ''A'' ''n1'' ''t1'' (initial :: 10 word hub))
        ''received/p.bin''
   \<and> (\<exists>s'. handleFileTransfer below_1024 ''c1''
           \<lparr>filename = ''p.bin'', fileData = js ''AP8Q'', fileSize = 3, sender = ''A''\<rparr>
           ''n2'' ''t2'' (handleUserJoin 1 ''c1'' ''A'' ''n1'' ''t1'' initial) = Inr s'
         \<and> received s' ''received/p.bin'' = Some [0x00, 0xFF, 0x10])"
proof -
  let ?s = "handleUserJoin 1 ''c1'' ''A'' ''n1'' ''t1'' (initial :: 10 word hub)"
  have h: "map_of (users ?s) ''c1'' = Some \<lparr>u_id = ''c1'', u_username = ''A'', u_ws = 1\<rparr>"
    by (simp add: users_handleUserJoin initial_def)
  have pj: "path_join ''received'' ''p.bin'' = ''received/p.bin''"
    by (simp add: path_join_received plain_name_def)
  have wr: "writable ?s ''received/p.bin''"
    by (simp add: handleUserJoin_fields initial_def in_received_def plain_name_def)
  show ?thesis
    using h pj wr encode_three
      C8_file_relay_roundtrip [of "[0x00, 0xFF, 0x10]" ?s "''c1''"
        "\<lparr>u_id = ''c1'', u_username = ''A'', u_ws = 1\<rparr>"
        "\<lparr>filename = ''p.bin'', fileData = [], fileSize = 3, sender = ''A''\<rparr>"
        below_1024 "''n2''" "''t2''"]
    by (simp del: One_nat_def)
qed

text \<open>
  C9 fails on the code. A second \<open>join\<close> frame on a connection that has joined as A
  renames the participant to B, and one with the empty name leaves a registered
  participant whose name is empty.
\<close>

theorem C9_rename_counterexample:
  "map_of (users (run below_1024 initial
       [WsMessage 1 ''c1'' (InJoin ''A'') ''n1'' ''t1''])) ''c1'' =
     Some \<lparr>u_id = ''c1'', u_username = ''A'', u_ws = 1\<rparr>
   \<and> map_of (users (run below_1024 initial
       [WsMessage 1 ''c1'' (InJoin ''A'') ''n1'' ''t1'',
        WsMessage 1 ''c1'' (InJoin ''B'') ''n2'' ''t2''])) ''c1'' =
     Some \<lparr>u_id = ''c1'', u_username = ''B'', u_ws = 1\<rparr>
   \<and> map_of (users (run below_1024 initial
       [WsMessage 1 ''c1'' (InJoin ''A'') ''n1'' ''t1'',
        WsMessage 1 ''c1'' (InJoin []) ''n2'' ''t2''])) ''c1'' =
     Some \<lparr>u_id = ''c1'', u_username = [], u_ws = 1\<rparr>"
  by (simp add: run_def handleWebSocketMessage_def users_handleUserJoin initial_def)

text \<open>
  C9, as the code has it. The name of a registered participant is the one its latest
  \<open>join\<close> frame gave, empty or not. No chat message, file transfer or unknown frame on
  its connection and no event of another connection changes it; a further \<open>join\<close> on the
  same connection replaces it.
\<close>

theorem C9_name_changes_only_by_join:
  assumes "map_of (users s) userId = Some u"
  shows "(\<not> list_ex (\<lambda>e. is_join_of userId e \<or> is_close_of userId e) evs \<longrightarrow>
            map_of (users (run J s evs)) userId = Some u)
       \<and> map_of (users (step J s (WsMessage w userId (InJoin name') nid now))) userId =
            Some \<lparr>u_id = userId, u_username = name', u_ws = w\<rparr>"
  using assms
  by (simp add: map_of_users_run handleWebSocketMessage_def users_handleUserJoin update_conv')

theorem C9_name_changes_only_by_join_witness:
  "map_of (users (handleUserJoin 1 ''c1'' ''A'' ''n1'' ''t1'' (initial :: 10 word hub))) ''c1'' =
     Some \<lparr>u_id = ''c1'', u_username = ''A'', u_ws = 1\<rparr>
   \<and> \<not> list_ex (\<lambda>e. is_join_of ''c1'' e \<or> is_close_of ''c1'' e)
         [WsMessage 1 ''c1'' (InMessage ''hi'') ''n2'' ''t2'' :: 10 word event,
          WsMessage 2 ''c2'' (InJoin ''B'') ''n3'' ''t3'',
          WsMessage 1 ''c1''
            (InFile \<lparr>filename = ''p.bin'', fileData = js ''AP8Q'', fileSize = 3,
               sender = ''A''\<rparr>) ''n4'' ''t4'',
          WsMessage 1 ''c1'' (InOther ''ping'') ''n5'' ''t5'',
          WsClose ''c2'' ''n6'' ''t6'']
   \<and> map_of (users (run below_1024 (handleUserJoin 1 ''c1'' ''A'' ''n1'' ''t1'' initial)
         [WsMessage 1 ''c1'' (InMessage ''hi'') ''n2'' ''t2'',
          WsMessage 2 ''c2'' (InJoin ''B'') ''n3'' ''t3'',
          WsMessage 1 ''c1''
            (InFile \<lparr>filename = ''p.bin'', fileData = js ''AP8Q'', fileSize = 3,
               sender = ''A''\<rparr>) ''n4'' ''t4'',
          WsMessage 1 ''c1'' (InOther ''ping'') ''n5'' ''t5'',
          WsClose ''c2'' ''n6'' ''t6''])) ''c1'' =
     Some \<lparr>u_id = ''c1'', u_username = ''A'', u_ws = 1\<rparr>
   \<and> map_of (users (step below_1024 (handleUserJoin 1 ''c1'' ''A'' ''n1'' ''t1'' initial)
         (WsMessage 1 ''c1'' (InJoin ''Z'') ''n2'' ''t2''))) ''c1'' =
     Some \<lparr>u_id = ''c1'', u_username = ''Z'', u_ws = 1\<rparr>"
proof -
  have h: "map_of (users (handleUserJoin 1 ''c1'' ''A'' ''n1'' ''t1'' (initial :: 10 word hub)))
      ''c1'' = Some \<lparr>u_id = ''c1'', u_username = ''A'', u_ws = 1\<rparr>"
    by (simp add: users_handleUserJoin initial_def)
  show ?thesis
    using h C9_name_changes_only_by_join [OF h,
        of "[WsMessage 1 ''c1'' (InMessage ''hi'') ''n2'' ''t2'',
          WsMessage 2 ''c2'' (InJoin ''B'') ''n3'' ''t3'',
          WsMessage 1 ''c1''
            (InFile \<lparr>filename = ''p.bin'', fileData = js ''AP8Q'', fileSize = 3,
               sender = ''A''\<rparr>) ''n4'' ''t4'',
          WsMessage 1 ''c1'' (InOther ''ping'') ''n5'' ''t5'',
          WsClose ''c2'' ''n6'' ''t6'']" below_1024 1 "''Z''" "''n2''" "''t2''"]
    by simp
qed

text \<open>
  C10 fails on the code where it says that for every request of a joined sender the
  decoded bytes are written. With the empty file name \<open>path.join("received", "")\<close> is the
  directory \<open>received\<close> itself, \<open>fs.writeFileSync\<close> throws, and the \<open>catch\<close> of the
  \<open>message\<close> callback ends the frame: on the hub as constructed, after A has joined, a
  file frame of A with content \<open>AP8Q\<close>, which decodes to three bytes, and the empty name
  leaves the hub as it was, with no file written.
\<close>

theorem C10_empty_filename_counterexample:
  "map_of (users (run below_1024 initial [WsMessage 1 ''c1'' (InJoin ''A'') ''n1'' ''t1'']))
      ''c1'' = Some \<lparr>u_id = ''c1'', u_username = ''A'', u_ws = 1\<rparr>
   \<and> length (base64_decode (js ''AP8Q'')) = 3
   \<and> path_join ''received'' [] = ''received''
   \<and> handleFileTransfer below_1024 ''c1''
        \<lparr>filename = [], fileData = js ''AP8Q'', fileSize = 3, sender = ''A''\<rparr> ''n2'' ''t2''
        (run below_1024 initial [WsMessage 1 ''c1'' (InJoin ''A'') ''n1'' ''t1'']) =
      Inl (WriteFailed ''received'')
   \<and> run below_1024 initial
        [WsMessage 1 ''c1'' (InJoin ''A'') ''n1'' ''t1'',
         WsMessage 1 ''c1''
           (InFile \<lparr>filename = [], fileData = js ''AP8Q'', fileSize = 3, sender = ''A''\<rparr>)
           ''n2'' ''t2''] =
      run below_1024 initial [WsMessage 1 ''c1'' (InJoin ''A'') ''n1'' ''t1'']
   \<and> received (run below_1024 initial
        [WsMessage 1 ''c1'' (InJoin ''A'') ''n1'' ''t1'',
         WsMessage 1 ''c1''
           (InFile \<lparr>filename = [], fileData = js ''AP8Q'', fileSize = 3, sender = ''A''\<rparr>)
           ''n2'' ''t2'']) = Map.empty"
proof -
  let ?j = "handleUserJoin 1 ''c1'' ''A'' ''n1'' ''t1'' (initial :: 10 word hub)"
  let ?fd = "\<lparr>filename = [], fileData = js ''AP8Q'', fileSize = 3 :: 10 word, sender = ''A''\<rparr>"
  have s: "run below_1024 initial [WsMessage 1 ''c1'' (InJoin ''A'') ''n1'' ''t1''] = ?j"
    by (simp add: run_def handleWebSocketMessage_def)
  have h: "map_of (users ?j) ''c1'' = Some \<lparr>u_id = ''c1'', u_username = ''A'', u_ws = 1\<rparr>"
    by (simp add: users_handleUserJoin initial_def)
  have nw: "\<not> writable ?j (path_join ''received'' (filename ?fd))"
    by (simp add: handleUserJoin_fields initial_def not_in_received_dir)
  have e: "handleFileTransfer below_1024 ''c1'' ?fd ''n2'' ''t2'' ?j =
      Inl (WriteFailed (path_join ''received'' (filename ?fd)))"
    using h nw by (rule handleFileTransfer_failed)
  then have st: "step below_1024 ?j (WsMessage 1 ''c1'' (InFile ?fd) ''n2'' ''t2'') = ?j"
    by (rule file_frame_dropped)
  have r2: "run below_1024 initial
        [WsMessage 1 ''c1'' (InJoin ''A'') ''n1'' ''t1'',
         WsMessage 1 ''c1'' (InFile ?fd) ''n2'' ''t2''] = ?j"
    using run_snoc [of below_1024 initial "[WsMessage 1 ''c1'' (InJoin ''A'') ''n1'' ''t1'']"
        "WsMessage 1 ''c1'' (InFile ?fd) ''n2'' ''t2''"]
    by (simp only: s st append_Cons append_Nil)
  have r0: "received ?j = Map.empty"
    by (simp add: handleUserJoin_fields initial_def)
  have d: "length (base64_decode (js ''AP8Q'')) = 3"
    by (simp add: decode_three)
  have pj: "path_join ''received'' [] = ''received''"
    by (rule path_join_received_empty)
  from e have e': "handleFileTransfer below_1024 ''c1'' ?fd ''n2'' ''t2'' ?j =
      Inl (WriteFailed ''received'')"
    by (simp only: pj file_transfer.simps)
  show ?thesis
    unfolding r2 s
    using h d e' r0 pj by (simp del: One_nat_def)
qed

text \<open>
  C10, as the code has it. \<open>handleFileTransfer\<close> never compares \<open>fileSize\<close> with the
  content, and whether the transfer goes through does not depend on it. Where the file
  can be written, the file written is the decoded \<open>fileData\<close> whatever size is declared;
  changing the declared size alone changes neither the stored files nor who is registered
  nor which sockets are sent to, only the text of the file notice, where \<open>formatFileSize\<close>
  renders it, and the \<open>fileSize\<close> field handed on in the \<open>file_received\<close> notification. Where the
  file cannot be written, the write throws whatever size is declared, and the frame
  leaves the hub as it was.
\<close>

theorem C10_fileSize_not_validated:
  assumes "map_of (users s) userId = Some u"
  shows "(writable s (path_join ''received'' (filename fd)) \<longrightarrow>
          (\<exists>s' t'. handleFileTransfer J userId fd nid now s = Inr s'
             \<and> handleFileTransfer J userId (fd\<lparr>fileSize := n\<rparr>) nid now s = Inr t'
             \<and> received s' =
                 (received s)(path_join ''received'' (filename fd) \<mapsto>
                    base64_decode (fileData fd))
             \<and> received t' = received s'
             \<and> users t' = users s'
             \<and> map fst (sent t') = map fst (sent s')
             \<and> chatLog s' =
                 chatLog s @
                 [\<lparr>m_id = nid, m_username = u_username u,
                   m_message = paperclip @ '' Shared file: '' @ filename fd @
                               '' ('' @ formatFileSize J (fileSize fd) @ '')'',
                   m_timestamp = now, m_type = TFile\<rparr>]
             \<and> sent s' =
                 sent s @
                 fanout (OutMessage
                           \<lparr>m_id = nid, m_username = u_username u,
                            m_message = paperclip @ '' Shared file: '' @ filename fd @
                                        '' ('' @ formatFileSize J (fileSize fd) @ '')'',
                            m_timestamp = now, m_type = TFile\<rparr>)
                   (users s) (readyState s) @
                 fanout (OutFileReceived
                           \<lparr>fn_filename = filename fd, fn_fileData = fileData fd,
                            fn_sender = u_username u, fn_fileSize = fileSize fd,
                            fn_downloadUrl = ''/api/download/'' @ filename fd\<rparr>)
                   (filter (\<lambda>(k, v). k \<noteq> userId) (users s)) (readyState s)))
       \<and> (\<not> writable s (path_join ''received'' (filename fd)) \<longrightarrow>
            handleFileTransfer J userId fd nid now s =
              Inl (WriteFailed (path_join ''received'' (filename fd)))
            \<and> handleFileTransfer J userId (fd\<lparr>fileSize := n\<rparr>) nid now s =
              Inl (WriteFailed (path_join ''received'' (filename fd)))
            \<and> step J s (WsMessage w userId (InFile fd) nid now) = s
            \<and> step J s (WsMessage w userId (InFile (fd\<lparr>fileSize := n\<rparr>)) nid now) = s)"
proof -
  let ?p = "path_join ''received'' (filename fd)"
  let ?fd' = "fd\<lparr>fileSize := n\<rparr>"
  have written: "\<exists>s' t'. handleFileTransfer J userId fd nid now s = Inr s'
             \<and> handleFileTransfer J userId ?fd' nid now s = Inr t'
             \<and> received s' = (received s)(?p \<mapsto> base64_decode (fileData fd))
             \<and> received t' = received s'
             \<and> users t' = users s'
             \<and> map fst (sent t') = map fst (sent s')
             \<and> chatLog s' =
                 chatLog s @
                 [\<lparr>m_id = nid, m_username = u_username u,
                   m_message = paperclip @ '' Shared file: '' @ filename fd @
                               '' ('' @ formatFileSize J (fileSize fd) @ '')'',
                   m_timestamp = now, m_type = TFile\<rparr>]
             \<and> sent s' =
                 sent s @
                 fanout (OutMessage
                           \<lparr>m_id = nid, m_username = u_username u,
                            m_message = paperclip @ '' Shared file: '' @ filename fd @
                                        '' ('' @ formatFileSize J (fileSize fd) @ '')'',
                            m_timestamp = now, m_type = TFile\<rparr>)
                   (users s) (readyState s) @
                 fanout (OutFileReceived
                           \<lparr>fn_filename = filename fd, fn_fileData = fileData fd,
                            fn_sender = u_username u, fn_fileSize = fileSize fd,
                            fn_downloadUrl = ''/api/download/'' @ filename fd\<rparr>)
                   (filter (\<lambda>(k, v). k \<noteq> userId) (users s)) (readyState s)"
    if wr: "writable s ?p"
  proof -
    have wr': "writable s (path_join ''received'' (filename ?fd'))"
      using wr by simp
    from handleFileTransfer_fields [OF assms wr, of J nid now]
    obtain s' where a: "handleFileTransfer J userId fd nid now s = Inr s'"
      "users s' = users s"
      "received s' = (received s)(?p \<mapsto> base64_decode (fileData fd))"
      "chatLog s' =
           chatLog s @ [\<lparr>m_id = nid, m_username = u_username u,
                         m_message = fileNoticeText J fd, m_timestamp = now, m_type = TFile\<rparr>]"
      "sent s' =
           sent s @
           fanout (OutMessage \<lparr>m_id = nid, m_username = u_username u,
                     m_message = fileNoticeText J fd, m_timestamp = now, m_type = TFile\<rparr>)
             (users s) (readyState s) @
           fanout (OutFileReceived
                     \<lparr>fn_filename = filename fd, fn_fileData = fileData fd,
                      fn_sender = u_username u, fn_fileSize = fileSize fd,
                      fn_downloadUrl = ''/api/download/'' @ filename fd\<rparr>)
             (filter (\<lambda>(k, v). k \<noteq> userId) (users s)) (readyState s)"
      by blast
    from handleFileTransfer_fields [OF assms wr', of J nid now]
    obtain t' where b: "handleFileTransfer J userId ?fd' nid now s = Inr t'"
      "users t' = users s"
      "received t' =
         (received s)(path_join ''received'' (filename ?fd') \<mapsto> base64_decode (fileData ?fd'))"
      "sent t' =
           sent s @
           fanout (OutMessage \<lparr>m_id = nid, m_username = u_username u,
                     m_message = fileNoticeText J ?fd', m_timestamp = now, m_type = TFile\<rparr>)
             (users s) (readyState s) @
           fanout (OutFileReceived
                     \<lparr>fn_filename = filename ?fd', fn_fileData = fileData ?fd',
                      fn_sender = u_username u, fn_fileSize = fileSize ?fd',
                      fn_downloadUrl = ''/api/download/'' @ filename ?fd'\<rparr>)
             (filter (\<lambda>(k, v). k \<noteq> userId) (users s)) (readyState s)"
      by blast
    have rt: "received t' = received s'"
      by (simp add: a(3) b(3))
    have ut: "users t' = users s'"
      by (simp add: a(2) b(2))
    have st: "map fst (sent t') = map fst (sent s')"
      by (simp add: a(5) b(4) fanout_def split_def comp_def)
    from a b(1) rt ut st show ?thesis
      by (simp add: fileNoticeText_def)
  qed
  have failed: "handleFileTransfer J userId fd nid now s = Inl (WriteFailed ?p)
            \<and> handleFileTransfer J userId ?fd' nid now s = Inl (WriteFailed ?p)
            \<and> step J s (WsMessage w userId (InFile fd) nid now) = s
            \<and> step J s (WsMessage w userId (InFile ?fd') nid now) = s"
    if nw: "\<not> writable s ?p"
  proof -
    have nw': "\<not> writable s (path_join ''received'' (filename ?fd'))"
      using nw by simp
    have e: "handleFileTransfer J userId fd nid now s = Inl (WriteFailed ?p)"
      using assms nw by (rule handleFileTransfer_failed)
    have e': "handleFileTransfer J userId ?fd' nid now s =
        Inl (WriteFailed (path_join ''received'' (filename ?fd')))"
      using assms nw' by (rule handleFileTransfer_failed)
    have "step J s (WsMessage w userId (InFile fd) nid now) = s"
      using e by (rule file_frame_dropped)
    moreover have "step J s (WsMessage w userId (InFile ?fd') nid now) = s"
      using e' by (rule file_frame_dropped)
    ultimately show ?thesis
      using e e' by simp
  qed
  from written failed show ?thesis by blast
qed

theorem C10_fileSize_not_validated_witness:
  "map_of (users (handleUserJoin 1 ''c1'' ''A'' ''n1'' ''t1'' (initial :: 10 word hub))) ''c1'' =
     Some \<lparr>u_id = ''c1'', u_username = ''A'', u_ws = 1\<rparr>
   \<and> path_join ''received'' ''p.bin'' = ''received/p.bin''
   \<and> writable (handleUserJoin 1 ''c1'' ''A'' ''n1'' ''t1'' (initial :: 10 word hub))
        ''received/p.bin''
   \<and> (\<exists>s' t'.
         handleFileTransfer below_1024 ''c1''
           \<lparr>filename = ''p.bin'', fileData = js ''AP8Q'', fileSize = 999, sender = ''A''\<rparr>
           ''n2'' ''t2'' (handleUserJoin 1 ''c1'' ''A'' ''n1'' ''t1'' initial) = Inr s'
       \<and> handleFileTransfer below_1024 ''c1''
           \<lparr>filename = ''p.bin'', fileData = js ''AP8Q'', fileSize = 3, sender = ''A''\<rparr>
           ''n2'' ''t2'' (handleUserJoin 1 ''c1'' ''A'' ''n1'' ''t1'' initial) = Inr t'
       \<and> received s' ''received/p.bin'' = Some [0x00, 0xFF, 0x10]
       \<and> received t' = received s'
       \<and> map fst (sent t') = map fst (sent s')
       \<and> m_message (last (chatLog s')) = paperclip @ '' Shared file: p.bin (999 B)'')
   \<and> path_join ''received'' [] = ''received''
   \<and> \<not> writable (handleUserJoin 1 ''c1'' ''A'' ''n1'' ''t1'' (initial :: 10 word hub))
        ''received''
   \<and> step below_1024 (handleUserJoin 1 ''c1'' ''A'' ''n1'' ''t1'' initial)
        (WsMessage 1 ''c1''
           (InFile \<lparr>filename = [], fileData = js ''AP8Q'', fileSize = 999, sender = ''A''\<rparr>)
           ''n2'' ''t2'') =
      handleUserJoin 1 ''c1'' ''A'' ''n1'' ''t1'' initial"
proof -
  let ?s = "handleUserJoin 1 ''c1'' ''A'' ''n1'' ''t1'' (initial :: 10 word hub)"
  let ?fd = "\<lparr>filename = ''p.bin'', fileData = js ''AP8Q'', fileSize = 999 :: 10 word,
               sender = ''A''\<rparr>"
  let ?fe = "\<lparr>filename = [], fileData = js ''AP8Q'', fileSize = 999 :: 10 word,
               sender = ''A''\<rparr>"
  have h: "map_of (users ?s) ''c1'' = Some \<lparr>u_id = ''c1'', u_username = ''A'', u_ws = 1\<rparr>"
    by (simp add: users_handleUserJoin initial_def)
  have pj: "path_join ''received'' ''p.bin'' = ''received/p.bin''"
    "path_join ''received'' [] = ''received''"
    by (simp_all add: path_join_received path_join_received_empty plain_name_def)
  have wr: "writable ?s ''received/p.bin''" "\<not> writable ?s ''received''"
    by (simp_all add: handleUserJoin_fields initial_def in_received_def plain_name_def)
  have f: "formatFileSize below_1024 999 = ''999 B''"
    by (simp add: formatFileSize_below_1024)
  note a = C10_fileSize_not_validated [OF h, of ?fd below_1024 "''n2''" "''t2''" 3 1]
  note b = C10_fileSize_not_validated [OF h, of ?fe below_1024 "''n2''" "''t2''" 3 1]
  from a pj wr obtain s' t' where
      ok1: "handleFileTransfer below_1024 ''c1'' ?fd ''n2'' ''t2'' ?s = Inr s'"
    and ok2: "handleFileTransfer below_1024 ''c1'' (?fd\<lparr>fileSize := 3\<rparr>) ''n2'' ''t2'' ?s = Inr t'"
    and rc: "received s' =
        (received ?s)(path_join ''received'' (filename ?fd) \<mapsto> base64_decode (fileData ?fd))"
    and same: "received t' = received s'"
    and rcp: "map fst (sent t') = map fst (sent s')"
    and cl: "chatLog s' =
                 chatLog ?s @
                 [\<lparr>m_id = ''n2'', m_username = u_username \<lparr>u_id = ''c1'', u_username = ''A'',
                                                         u_ws = 1\<rparr>,
                   m_message = paperclip @ '' Shared file: '' @ filename ?fd @
                               '' ('' @ formatFileSize below_1024 (fileSize ?fd) @ '')'',
                   m_timestamp = ''t2'', m_type = TFile\<rparr>]"
    by (auto simp del: One_nat_def)
  have rcv: "received s' ''received/p.bin'' = Some [0x00, 0xFF, 0x10]"
    by (simp add: rc pj decode_three)
  have msg: "m_message (last (chatLog s')) = paperclip @ '' Shared file: p.bin (999 B)''"
    by (simp add: cl f)
  have ok3: "handleFileTransfer below_1024 ''c1''
           \<lparr>filename = ''p.bin'', fileData = js ''AP8Q'', fileSize = 3, sender = ''A''\<rparr>
           ''n2'' ''t2'' ?s = Inr t'"
    using ok2 by simp
  from b pj wr have dropped: "step below_1024 ?s (WsMessage 1 ''c1'' (InFile ?fe) ''n2'' ''t2'') = ?s"
    by (simp del: One_nat_def)
  from ok1 ok3 rcv same rcp msg have ex: "\<exists>s' t'.
         handleFileTransfer below_1024 ''c1'' ?fd ''n2'' ''t2'' ?s = Inr s'
       \<and> handleFileTransfer below_1024 ''c1''
           \<lparr>filename = ''p.bin'', fileData = js ''AP8Q'', fileSize = 3, sender = ''A''\<rparr>
           ''n2'' ''t2'' ?s = Inr t'
       \<and> received s' ''received/p.bin'' = Some [0x00, 0xFF, 0x10]
       \<and> received t' = received s'
       \<and> map fst (sent t') = map fst (sent s')
       \<and> m_message (last (chatLog s')) = paperclip @ '' Shared file: p.bin (999 B)''"
    by blast
  from h pj wr ex dropped show ?thesis by simp
qed

end
